theory Spec2Isabelle
  imports Main "HOL-Library.Product_Lexorder"
begin

section \<open>GTG.core.dates: fuzzy and concrete dates\<close>

text \<open>
  A shallow embedding of \<^verbatim>\<open>GTG/core/dates.py\<close>. The module is written against
  Python's \<^verbatim>\<open>datetime\<close> and \<^verbatim>\<open>calendar\<close> libraries, the process clock, the locale
  and a \<^verbatim>\<open>gettext\<close> catalogue. The calendar arithmetic of the library is modelled
  after its reference implementation (proleptic Gregorian ordinals, years 1 to 9999);
  the clock, the local timezone, the catalogue and the library's string parsers are
  fields of an environment record that every operation takes as its first argument.
  Exceptions are values of type \<open>error\<close>; an operation that may read the clock takes
  the number of clock readings made so far and returns it updated.
\<close>

subsection \<open>Exceptions\<close>

datatype error =
  ValueError | KeyError | AssertionError | AttributeError | TypeError | OverflowError

subsection \<open>The calendar of the datetime library\<close>

text \<open>
  \<^verbatim>\<open>datetime.date\<close> stores year, month and day. A \<^verbatim>\<open>timedelta\<close> is modelled by its
  total number of microseconds (the library normalises days, seconds and
  microseconds to a unique triple, which this number determines); a timezone is a
  fixed offset from UTC, in microseconds.
\<close>

record pydate =
  year :: int
  month :: int
  day :: int

record pydatetime =
  date_of :: pydate
  hour :: int
  minute :: int
  second :: int
  microsecond :: int
  tzinfo :: "int option"

type_synonym timedelta = int

definition MINYEAR :: int where
  "MINYEAR = 1"

definition MAXYEAR :: int where
  "MAXYEAR = 9999"

definition MAXORDINAL :: int where
  "MAXORDINAL = 3652059"

definition DAY_US :: int where
  "DAY_US = 86400000000"

text \<open>\<^verbatim>\<open>timedelta(n)\<close>: a duration of \<open>n\<close> days; \<^verbatim>\<open>td.days\<close> rounds towards minus infinity.\<close>

definition timedelta_days :: "int \<Rightarrow> timedelta" where
  "timedelta_days n = n * DAY_US"

definition td_days :: "timedelta \<Rightarrow> int" where
  "td_days td = td div DAY_US"

text \<open>\<^verbatim>\<open>calendar.isleap\<close>, and the same test inside the datetime library.\<close>

definition isleap :: "int \<Rightarrow> bool" where
  "isleap y = (y mod 4 = 0 \<and> (y mod 100 \<noteq> 0 \<or> y mod 400 = 0))"

text \<open>\<^verbatim>\<open>calendar.mdays\<close>: the month lengths of a year that is not a leap year.\<close>

definition mdays :: "int list" where
  "mdays = [0, 31, 28, 31, 30, 31, 30, 31, 31, 30, 31, 30, 31]"

definition DAYS_IN_MONTH :: "int list" where
  "DAYS_IN_MONTH = [-1, 31, 28, 31, 30, 31, 30, 31, 31, 30, 31, 30, 31]"

definition DAYS_BEFORE_MONTH :: "int list" where
  "DAYS_BEFORE_MONTH = [-1, 0, 31, 59, 90, 120, 151, 181, 212, 243, 273, 304, 334]"

definition days_before_year :: "int \<Rightarrow> int" where
  "days_before_year y = (let p = y - 1 in p * 365 + p div 4 - p div 100 + p div 400)"

definition days_in_month :: "int \<Rightarrow> int \<Rightarrow> int" where
  "days_in_month y m = (if m = 2 \<and> isleap y then 29 else DAYS_IN_MONTH ! nat m)"

definition days_before_month :: "int \<Rightarrow> int \<Rightarrow> int" where
  "days_before_month y m = DAYS_BEFORE_MONTH ! nat m + (if m > 2 \<and> isleap y then 1 else 0)"

definition ymd2ord :: "int \<Rightarrow> int \<Rightarrow> int \<Rightarrow> int" where
  "ymd2ord y m d = days_before_year y + days_before_month y m + d"

text \<open>
  The inverse, as the library computes it: 400-year, 100-year and 4-year cycles, then
  an estimate of the month that is corrected when it is one too large.
\<close>

definition ord2ymd :: "int \<Rightarrow> int \<times> int \<times> int" where
  "ord2ymd n0 =
    (let n = n0 - 1;
         n400 = n div 146097; n = n mod 146097;
         n100 = n div 36524; n = n mod 36524;
         n4 = n div 1461; n = n mod 1461;
         n1 = n div 365; n = n mod 365;
         y = n400 * 400 + 1 + n100 * 100 + n4 * 4 + n1
     in if n1 = 4 \<or> n100 = 4 then (y - 1, 12, 31)
        else
          let leapyear = (n1 = 3 \<and> (n4 \<noteq> 24 \<or> n100 = 3));
              m = (n + 50) div 32;
              preceding = DAYS_BEFORE_MONTH ! nat m + (if m > 2 \<and> leapyear then 1 else 0)
          in if preceding > n
             then (y, m - 1,
                   n - (preceding - (DAYS_IN_MONTH ! nat (m - 1)
                                     + (if m - 1 = 2 \<and> leapyear then 1 else 0))) + 1)
             else (y, m, n - preceding + 1))"

definition valid_date :: "pydate \<Rightarrow> bool" where
  "valid_date d =
    (MINYEAR \<le> year d \<and> year d \<le> MAXYEAR \<and> 1 \<le> month d \<and> month d \<le> 12 \<and>
     1 \<le> day d \<and> day d \<le> days_in_month (year d) (month d))"

text \<open>\<^verbatim>\<open>date(y, m, d)\<close> checks its fields and raises \<^verbatim>\<open>ValueError\<close>.\<close>

definition date_new :: "int \<Rightarrow> int \<Rightarrow> int \<Rightarrow> error + pydate" where
  "date_new y m d =
    (let r = \<lparr>year = y, month = m, day = d\<rparr>
     in if valid_date r then Inr r else Inl ValueError)"

definition date_replace_day :: "pydate \<Rightarrow> int \<Rightarrow> error + pydate" where
  "date_replace_day d mday = date_new (year d) (month d) mday"

definition date_replace_year :: "pydate \<Rightarrow> int \<Rightarrow> error + pydate" where
  "date_replace_year d y = date_new y (month d) (day d)"

definition toordinal :: "pydate \<Rightarrow> int" where
  "toordinal d = ymd2ord (year d) (month d) (day d)"

definition fromordinal :: "int \<Rightarrow> pydate" where
  "fromordinal n = (case ord2ymd n of (y, m, d) \<Rightarrow> \<lparr>year = y, month = m, day = d\<rparr>)"

text \<open>\<^verbatim>\<open>date.weekday()\<close>: Monday is 0.\<close>

definition weekday :: "pydate \<Rightarrow> int" where
  "weekday d = (toordinal d + 6) mod 7"

text \<open>\<^verbatim>\<open>date + timedelta\<close> uses the days of the duration only.\<close>

definition date_add :: "pydate \<Rightarrow> timedelta \<Rightarrow> error + pydate" where
  "date_add d td =
    (let n = toordinal d + td_days td
     in if 0 < n \<and> n \<le> MAXORDINAL then Inr (fromordinal n) else Inl OverflowError)"

text \<open>Dates compare as the tuples (year, month, day).\<close>

definition date_tuple :: "pydate \<Rightarrow> int \<times> int \<times> int" where
  "date_tuple d = (year d, month d, day d)"

definition date_le :: "pydate \<Rightarrow> pydate \<Rightarrow> bool" where
  "date_le a b = (date_tuple a \<le> date_tuple b)"

subsection \<open>Datetimes\<close>

definition time_us :: "pydatetime \<Rightarrow> int" where
  "time_us t = ((hour t * 60 + minute t) * 60 + second t) * 1000000 + microsecond t"

text \<open>\<^verbatim>\<open>datetime(y, m, d, tzinfo=tz)\<close>: midnight of a checked date.\<close>

definition datetime_new :: "int \<Rightarrow> int \<Rightarrow> int \<Rightarrow> int option \<Rightarrow> error + pydatetime" where
  "datetime_new y m d tz =
    (case date_new y m d of
       Inl e \<Rightarrow> Inl e
     | Inr r \<Rightarrow> Inr \<lparr>date_of = r, hour = 0, minute = 0, second = 0, microsecond = 0,
                     tzinfo = tz\<rparr>)"

text \<open>
  \<^verbatim>\<open>datetime + timedelta\<close>: the sum is taken on the microsecond count since ordinal 0
  and split again; the timezone is kept.
\<close>

definition datetime_add :: "pydatetime \<Rightarrow> timedelta \<Rightarrow> error + pydatetime" where
  "datetime_add t td =
    (let total = toordinal (date_of t) * DAY_US + time_us t + td;
         days = total div DAY_US;
         r = total mod DAY_US
     in if 0 < days \<and> days \<le> MAXORDINAL
        then Inr \<lparr>date_of = fromordinal days,
                  hour = r div 3600000000,
                  minute = r div 60000000 mod 60,
                  second = r div 1000000 mod 60,
                  microsecond = r mod 1000000,
                  tzinfo = tzinfo t\<rparr>
        else Inl OverflowError)"

text \<open>The instant of an aware datetime on the UTC axis, and of a naive one on its own.\<close>

definition naive_us :: "pydatetime \<Rightarrow> int" where
  "naive_us t = toordinal (date_of t) * DAY_US + time_us t"

definition utc_us :: "pydatetime \<Rightarrow> int" where
  "utc_us t = naive_us t - (case tzinfo t of None \<Rightarrow> 0 | Some off \<Rightarrow> off)"

text \<open>The tuple by which the library compares naive datetimes.\<close>

definition datetime_tuple :: "pydatetime \<Rightarrow> int \<times> int \<times> int \<times> int \<times> int \<times> int \<times> int" where
  "datetime_tuple t =
    (year (date_of t), month (date_of t), day (date_of t),
     hour t, minute t, second t, microsecond t)"

text \<open>
  \<^verbatim>\<open>dt.astimezone(tz)\<close> for a fixed-offset timezone: the same object is returned when
  the datetime already carries the offset; otherwise the offset of the datetime (the
  local one when it is naive) is subtracted and the target offset added.
\<close>

definition astimezone :: "int \<Rightarrow> pydatetime \<Rightarrow> int \<Rightarrow> error + pydatetime" where
  "astimezone local t tz =
    (if tzinfo t = Some tz then Inr t
     else
       (case datetime_add t (- (case tzinfo t of None \<Rightarrow> local | Some off \<Rightarrow> off)) of
          Inl e \<Rightarrow> Inl e
        | Inr u \<Rightarrow>
            (case datetime_add u tz of
               Inl e \<Rightarrow> Inl e
             | Inr r \<Rightarrow> Inr (r\<lparr>tzinfo := Some tz\<rparr>))))"

subsection \<open>Raw values and Python's operators on them\<close>

text \<open>
  The values a \<^verbatim>\<open>Date\<close> stores or is combined with: an integer (the fuzzy codes), a
  date, a datetime (naive or aware) or a timedelta.
\<close>

datatype pyval = PInt int | PDate pydate | PDatetime pydatetime | PTimedelta timedelta

definition cmp3 :: "'a::linorder \<Rightarrow> 'a \<Rightarrow> int" where
  "cmp3 x y = (if x = y then 0 else if x < y then - 1 else 1)"

text \<open>
  Ordering comparisons raise \<^verbatim>\<open>TypeError\<close> between values of different kinds and
  between a naive and an aware datetime; aware datetimes compare by their UTC instant.
\<close>

fun py_cmp :: "pyval \<Rightarrow> pyval \<Rightarrow> error + int" where
  "py_cmp (PInt a) (PInt b) = Inr (cmp3 a b)"
| "py_cmp (PDate a) (PDate b) = Inr (cmp3 (date_tuple a) (date_tuple b))"
| "py_cmp (PDatetime a) (PDatetime b) =
     (case (tzinfo a, tzinfo b) of
        (None, None) \<Rightarrow> Inr (cmp3 (datetime_tuple a) (datetime_tuple b))
      | (Some x, Some y) \<Rightarrow> Inr (cmp3 (utc_us a) (utc_us b))
      | _ \<Rightarrow> Inl TypeError)"
| "py_cmp (PTimedelta a) (PTimedelta b) = Inr (cmp3 a b)"
| "py_cmp _ _ = Inl TypeError"

definition py_lt :: "pyval \<Rightarrow> pyval \<Rightarrow> error + bool" where
  "py_lt a b = (case py_cmp a b of Inl e \<Rightarrow> Inl e | Inr r \<Rightarrow> Inr (r < 0))"

definition py_le :: "pyval \<Rightarrow> pyval \<Rightarrow> error + bool" where
  "py_le a b = (case py_cmp a b of Inl e \<Rightarrow> Inl e | Inr r \<Rightarrow> Inr (r \<le> 0))"

definition py_gt :: "pyval \<Rightarrow> pyval \<Rightarrow> error + bool" where
  "py_gt a b = (case py_cmp a b of Inl e \<Rightarrow> Inl e | Inr r \<Rightarrow> Inr (r > 0))"

definition py_ge :: "pyval \<Rightarrow> pyval \<Rightarrow> error + bool" where
  "py_ge a b = (case py_cmp a b of Inl e \<Rightarrow> Inl e | Inr r \<Rightarrow> Inr (r \<ge> 0))"

text \<open>Equality never raises: values that cannot be ordered are unequal.\<close>

definition py_eq :: "pyval \<Rightarrow> pyval \<Rightarrow> error + bool" where
  "py_eq a b = (case py_cmp a b of Inl e \<Rightarrow> Inr False | Inr r \<Rightarrow> Inr (r = 0))"

fun py_add :: "pyval \<Rightarrow> pyval \<Rightarrow> error + pyval" where
  "py_add (PInt a) (PInt b) = Inr (PInt (a + b))"
| "py_add (PDate d) (PTimedelta td) =
     (case date_add d td of Inl e \<Rightarrow> Inl e | Inr r \<Rightarrow> Inr (PDate r))"
| "py_add (PTimedelta td) (PDate d) =
     (case date_add d td of Inl e \<Rightarrow> Inl e | Inr r \<Rightarrow> Inr (PDate r))"
| "py_add (PDatetime t) (PTimedelta td) =
     (case datetime_add t td of Inl e \<Rightarrow> Inl e | Inr r \<Rightarrow> Inr (PDatetime r))"
| "py_add (PTimedelta td) (PDatetime t) =
     (case datetime_add t td of Inl e \<Rightarrow> Inl e | Inr r \<Rightarrow> Inr (PDatetime r))"
| "py_add (PTimedelta a) (PTimedelta b) = Inr (PTimedelta (a + b))"
| "py_add _ _ = Inl TypeError"

fun py_sub :: "pyval \<Rightarrow> pyval \<Rightarrow> error + pyval" where
  "py_sub (PInt a) (PInt b) = Inr (PInt (a - b))"
| "py_sub (PDate d) (PTimedelta td) =
     (case date_add d (timedelta_days (- td_days td)) of
        Inl e \<Rightarrow> Inl e
      | Inr r \<Rightarrow> Inr (PDate r))"
| "py_sub (PDate a) (PDate b) = Inr (PTimedelta (timedelta_days (toordinal a - toordinal b)))"
| "py_sub (PDatetime t) (PTimedelta td) =
     (case datetime_add t (- td) of Inl e \<Rightarrow> Inl e | Inr r \<Rightarrow> Inr (PDatetime r))"
| "py_sub (PDatetime a) (PDatetime b) =
     (case (tzinfo a, tzinfo b) of
        (None, None) \<Rightarrow> Inr (PTimedelta (naive_us a - naive_us b))
      | (Some x, Some y) \<Rightarrow> Inr (PTimedelta (utc_us a - utc_us b))
      | _ \<Rightarrow> Inl TypeError)"
| "py_sub (PTimedelta a) (PTimedelta b) = Inr (PTimedelta (a - b))"
| "py_sub _ _ = Inl TypeError"

text \<open>
  \<^verbatim>\<open>isoformat()\<close> of dates and datetimes: zero-padded fields, the microseconds when
  they are not zero, and the UTC offset of an aware datetime.
\<close>

fun pad :: "nat \<Rightarrow> int \<Rightarrow> string" where
  "pad 0 n = []"
| "pad (Suc w) n = pad w (n div 10) @ [''0123456789'' ! nat (n mod 10)]"

definition isoformat_date :: "pydate \<Rightarrow> string" where
  "isoformat_date d = pad 4 (year d) @ ''-'' @ pad 2 (month d) @ ''-'' @ pad 2 (day d)"

definition isoformat_hms :: "int \<Rightarrow> string" where
  "isoformat_hms us =
    pad 2 (us div 3600000000) @ '':'' @ pad 2 (us div 60000000 mod 60) @
    (if us mod 60000000 = 0 then []
     else '':'' @ pad 2 (us div 1000000 mod 60) @
          (if us mod 1000000 = 0 then [] else ''.'' @ pad 6 (us mod 1000000)))"

definition isoformat_datetime :: "pydatetime \<Rightarrow> string" where
  "isoformat_datetime t =
    isoformat_date (date_of t) @ ''T'' @
    pad 2 (hour t) @ '':'' @ pad 2 (minute t) @ '':'' @ pad 2 (second t) @
    (if microsecond t = 0 then [] else ''.'' @ pad 6 (microsecond t)) @
    (case tzinfo t of
       None \<Rightarrow> []
     | Some off \<Rightarrow> (if off < 0 then ''-'' else ''+'') @ isoformat_hms (abs off))"

definition isoformat :: "pyval \<Rightarrow> error + string" where
  "isoformat v =
    (case v of
       PDate d \<Rightarrow> Inr (isoformat_date d)
     | PDatetime t \<Rightarrow> Inr (isoformat_datetime t)
     | _ \<Rightarrow> Inl AttributeError)"

subsection \<open>Strings\<close>

text \<open>\<^verbatim>\<open>str.lower()\<close>, \<^verbatim>\<open>str.startswith\<close>, \<^verbatim>\<open>in\<close> and \<^verbatim>\<open>int()\<close> on ASCII strings.\<close>

definition lower_char :: "char \<Rightarrow> char" where
  "lower_char c =
    (case map_of (zip ''ABCDEFGHIJKLMNOPQRSTUVWXYZ'' ''abcdefghijklmnopqrstuvwxyz'') c of
       None \<Rightarrow> c
     | Some l \<Rightarrow> l)"

definition lower :: "string \<Rightarrow> string" where
  "lower s = map lower_char s"

fun startswith :: "string \<Rightarrow> string \<Rightarrow> bool" where
  "startswith s [] = True"
| "startswith [] (p # ps) = False"
| "startswith (c # cs) (p # ps) = (c = p \<and> startswith cs ps)"

fun contains :: "string \<Rightarrow> string \<Rightarrow> bool" where
  "contains [] p = (p = [])"
| "contains (c # cs) p = (startswith (c # cs) p \<or> contains cs p)"

definition digit_val :: "char \<Rightarrow> int option" where
  "digit_val c = map_of (zip ''0123456789'' [0, 1, 2, 3, 4, 5, 6, 7, 8, 9]) c"

definition is_space :: "char \<Rightarrow> bool" where
  "is_space c = (c \<in> set [CHR '' '', CHR 0x09, CHR 0x0A, CHR 0x0B, CHR 0x0C, CHR 0x0D])"

text \<open>
  The digits of a decimal literal: a digit, then digits each optionally preceded by a
  single underscore. \<open>prev\<close> tells whether the previous character was a digit.
\<close>

fun int_digits :: "string \<Rightarrow> int \<Rightarrow> bool \<Rightarrow> int option" where
  "int_digits [] acc prev = (if prev then Some acc else None)"
| "int_digits (c # cs) acc prev =
     (case digit_val c of
        Some v \<Rightarrow> int_digits cs (acc * 10 + v) True
      | None \<Rightarrow> if c = CHR ''_'' \<and> prev \<and> cs \<noteq> [] \<and> digit_val (hd cs) \<noteq> None
                then int_digits cs acc False else None)"

text \<open>
  \<^verbatim>\<open>int(s)\<close>: surrounding whitespace is stripped, a sign is allowed; \<open>None\<close> stands
  for the \<^verbatim>\<open>ValueError\<close> that the callers catch.
\<close>

definition py_int :: "string \<Rightarrow> int option" where
  "py_int s =
    (let t = rev (dropWhile is_space (rev (dropWhile is_space s)))
     in case t of
          [] \<Rightarrow> None
        | c # cs \<Rightarrow>
            if c = CHR ''-'' then map_option uminus (int_digits cs 0 False)
            else if c = CHR ''+'' then int_digits cs 0 False
            else int_digits t 0 False)"

subsection \<open>The environment of the process\<close>

text \<open>
  What the module takes from outside: the \<open>n\<close>-th reading of the system clock (as
  local time), the local UTC offset, the translation function, the two format
  strings of the locale, and the string parsers of the datetime library (\<open>None\<close>
  where the library raises \<^verbatim>\<open>ValueError\<close>).
\<close>

record env =
  clock :: "nat \<Rightarrow> pydatetime"
  LOCAL_TIMEZONE :: int
  gettext :: "string \<Rightarrow> string"
  D_T_FMT :: string
  D_FMT :: string
  date_fromisoformat :: "string \<Rightarrow> pydate option"
  datetime_fromisoformat :: "string \<Rightarrow> pydatetime option"
  strptime :: "string \<Rightarrow> string \<Rightarrow> pydatetime option"

text \<open>
  A computation that may read the clock and may raise: from the number of readings made
  so far to a result or an exception, and the number of readings made afterwards.
\<close>

type_synonym 'a io = "nat \<Rightarrow> (error + 'a) \<times> nat"

definition io_return :: "'a \<Rightarrow> 'a io" where
  "io_return x c = (Inr x, c)"

definition io_raise :: "error \<Rightarrow> 'a io" where
  "io_raise e c = (Inl e, c)"

definition io_lift :: "error + 'a \<Rightarrow> 'a io" where
  "io_lift r c = (r, c)"

definition io_bind :: "'a io \<Rightarrow> ('a \<Rightarrow> 'b io) \<Rightarrow> 'b io" where
  "io_bind m f c = (case m c of (Inl e, c') \<Rightarrow> (Inl e, c') | (Inr x, c') \<Rightarrow> f x c')"

text \<open>\<^verbatim>\<open>datetime.now()\<close> is naive; \<^verbatim>\<open>date.today()\<close> is the date of a reading.\<close>

definition datetime_now :: "env \<Rightarrow> pydatetime io" where
  "datetime_now E c = (Inr ((clock E c)\<lparr>tzinfo := None\<rparr>), Suc c)"

definition date_today :: "env \<Rightarrow> pydate io" where
  "date_today E c = (Inr (date_of (clock E c)), Suc c)"

subsection \<open>Module constants\<close>

definition NOW :: int where
  "NOW = 0"

definition SOON :: int where
  "SOON = 1"

definition SOMEDAY :: int where
  "SOMEDAY = 2"

definition NODATE :: int where
  "NODATE = 3"

text \<open>
  The keys of \<^verbatim>\<open>LOOKUP\<close> are integers, strings and \<^verbatim>\<open>None\<close>; a later entry of the
  dictionary display replaces an earlier one with an equal key.
\<close>

datatype key = KInt int | KStr string | KNone

definition LOOKUP :: "env \<Rightarrow> key \<rightharpoonup> int" where
  "LOOKUP E =
    [KInt NOW \<mapsto> NOW,
     KStr ''now'' \<mapsto> NOW,
     KStr (gettext E ''now'') \<mapsto> NOW,
     KInt SOON \<mapsto> SOON,
     KStr ''soon'' \<mapsto> SOON,
     KStr (lower (gettext E ''soon'')) \<mapsto> SOON,
     KInt SOMEDAY \<mapsto> SOMEDAY,
     KStr ''later'' \<mapsto> SOMEDAY,
     KStr (lower (gettext E ''later'')) \<mapsto> SOMEDAY,
     KStr ''someday'' \<mapsto> SOMEDAY,
     KStr (lower (gettext E ''someday'')) \<mapsto> SOMEDAY,
     KInt NODATE \<mapsto> NODATE,
     KStr [] \<mapsto> NODATE,
     KNone \<mapsto> NODATE,
     KStr ''none'' \<mapsto> NODATE]"

datatype Accuracy = fuzzy | date | datetime | timezone

definition DATE_FORMATS :: "env \<Rightarrow> (string \<times> Accuracy) list" where
  "DATE_FORMATS E =
    [(D_T_FMT E, datetime),
     (''%Y-%m-%dT%H:%M%S.%f%z'', timezone),
     (''%Y-%m-%d %H:%M%S.%f%z'', timezone),
     (''%Y-%m-%dT%H:%M%S.%f'', datetime),
     (''%Y-%m-%d %H:%M%S.%f'', datetime),
     (''%Y-%m-%dT%H:%M%S'', datetime),
     (''%Y-%m-%d %H:%M%S'', datetime),
     (D_FMT E, date),
     (''%Y-%m-%d'', date)]"

subsection \<open>The class Date\<close>

record Date =
  dt_value :: pyval

text \<open>
  What a caller passes to the constructor or as the other operand: \<^verbatim>\<open>None\<close>, a
  string, a raw value, or a \<^verbatim>\<open>Date\<close>.
\<close>

datatype pyarg = ANone | AStr string | AVal pyval | AObj Date

text \<open>The loop of \<^verbatim>\<open>__parse_dt_str\<close> over \<^verbatim>\<open>DATE_FORMATS\<close>.\<close>

fun try_formats :: "env \<Rightarrow> string \<Rightarrow> (string \<times> Accuracy) list \<Rightarrow> pyval option" where
  "try_formats E s [] = None"
| "try_formats E s ((date_format, acc) # fs) =
     (case strptime E s date_format of
        None \<Rightarrow> try_formats E s fs
      | Some t \<Rightarrow> Some (if acc = date then PDate (date_of t) else PDatetime t))"

text \<open>\<^verbatim>\<open>Date.__parse_dt_str\<close>; the result \<open>None\<close> is Python's \<^verbatim>\<open>None\<close>.\<close>

definition parse_dt_str :: "env \<Rightarrow> string \<Rightarrow> (pyval option) io" where
  "parse_dt_str E s =
    (case date_fromisoformat E s of
       Some d \<Rightarrow> io_return (Some (PDate d))
     | None \<Rightarrow>
        (case datetime_fromisoformat E s of
           Some t \<Rightarrow> io_return (Some (PDatetime t))
         | None \<Rightarrow>
            (case try_formats E s (DATE_FORMATS E) of
               Some v \<Rightarrow> io_return (Some v)
             | None \<Rightarrow>
                if s = ''now'' \<or> s = lower (gettext E ''now'')
                then io_bind (datetime_now E) (\<lambda>t. io_return (Some (PDatetime t)))
                else io_return (map_option PInt (LOOKUP E (KStr (lower s)))))))"

text \<open>\<^verbatim>\<open>Date.__init__\<close>, in the order of its branches.\<close>

definition Date_init :: "env \<Rightarrow> pyarg \<Rightarrow> Date io" where
  "Date_init E v =
    (case v of
       AVal (PDate d) \<Rightarrow> io_return \<lparr>dt_value = PDate d\<rparr>
     | AVal (PDatetime t) \<Rightarrow> io_return \<lparr>dt_value = PDatetime t\<rparr>
     | AObj other \<Rightarrow> io_return \<lparr>dt_value = dt_value other\<rparr>
     | ANone \<Rightarrow> io_return \<lparr>dt_value = PInt NODATE\<rparr>
     | AStr s \<Rightarrow>
         if s = ''None'' \<or> s = [] then io_return \<lparr>dt_value = PInt NODATE\<rparr>
         else io_bind (parse_dt_str E s)
                (\<lambda>r. case r of
                        None \<Rightarrow> io_raise ValueError
                      | Some x \<Rightarrow> io_return \<lparr>dt_value = x\<rparr>)
     | AVal (PInt n) \<Rightarrow>
         if n = 0 then io_bind (datetime_now E) (\<lambda>t. io_return \<lparr>dt_value = PDatetime t\<rparr>)
         else (case LOOKUP E (KInt n) of
                 Some x \<Rightarrow> io_return \<lparr>dt_value = PInt x\<rparr>
               | None \<Rightarrow> io_raise ValueError)
     | AVal (PTimedelta td) \<Rightarrow> io_raise ValueError)"

text \<open>The property \<^verbatim>\<open>accuracy\<close>: recomputed from the stored value.\<close>

definition accuracy :: "Date \<Rightarrow> Accuracy" where
  "accuracy self =
    (case dt_value self of
       PDatetime t \<Rightarrow> if tzinfo t \<noteq> None then timezone else datetime
     | PDate d \<Rightarrow> date
     | _ \<Rightarrow> fuzzy)"

text \<open>
  The static method \<^verbatim>\<open>Date._dt_by_accuracy\<close>. The attribute accesses on \<open>dt_value\<close>
  raise \<^verbatim>\<open>AttributeError\<close> (or \<^verbatim>\<open>TypeError\<close> for \<^verbatim>\<open>date.replace(tzinfo=...)\<close>) on a
  value that lacks them; the two \<^verbatim>\<open>assert\<close> statements and the final \<^verbatim>\<open>raise\<close> are
  \<^verbatim>\<open>AssertionError\<close>.
\<close>

definition ymd_of :: "pyval \<Rightarrow> pydate option" where
  "ymd_of v = (case v of PDate d \<Rightarrow> Some d | PDatetime t \<Rightarrow> Some (date_of t) | _ \<Rightarrow> None)"

definition static_dt_by_accuracy ::
    "env \<Rightarrow> pyval \<Rightarrow> Accuracy \<Rightarrow> Accuracy \<Rightarrow> error + pyval" where
  "static_dt_by_accuracy E v acc wanted_accuracy =
    (if wanted_accuracy = timezone then
       if acc = date then
         (case ymd_of v of
            None \<Rightarrow> Inl AttributeError
          | Some d \<Rightarrow>
              (case datetime_new (year d) (month d) (day d) (Some (LOCAL_TIMEZONE E)) of
                 Inl e \<Rightarrow> Inl e
               | Inr t \<Rightarrow> Inr (PDatetime t)))
       else if acc \<noteq> datetime then Inl AssertionError
       else
         (case v of
            PDatetime t \<Rightarrow> Inr (PDatetime (t\<lparr>tzinfo := Some (LOCAL_TIMEZONE E)\<rparr>))
          | PDate d \<Rightarrow> Inl TypeError
          | _ \<Rightarrow> Inl AttributeError)
     else if wanted_accuracy = datetime then
       if acc = date then
         (case ymd_of v of
            None \<Rightarrow> Inl AttributeError
          | Some d \<Rightarrow>
              (case datetime_new (year d) (month d) (day d) None of
                 Inl e \<Rightarrow> Inl e
               | Inr t \<Rightarrow> Inr (PDatetime t)))
       else if acc \<noteq> timezone then Inl AssertionError
       else
         (case v of
            PDatetime t \<Rightarrow>
              (case astimezone (LOCAL_TIMEZONE E) t (LOCAL_TIMEZONE E) of
                 Inl e \<Rightarrow> Inl e
               | Inr r \<Rightarrow> Inr (PDatetime (r\<lparr>tzinfo := None\<rparr>)))
          | _ \<Rightarrow> Inl AttributeError)
     else if wanted_accuracy = date then
       (case v of
          PDatetime t \<Rightarrow> Inr (PDate (date_of t))
        | _ \<Rightarrow> Inl AttributeError)
     else Inl AssertionError)"

text \<open>The dictionary \<^verbatim>\<open>delta_days\<close> of \<^verbatim>\<open>dt_by_accuracy\<close>.\<close>

definition delta_days :: "pyval \<Rightarrow> int option" where
  "delta_days v =
    (case v of
       PInt n \<Rightarrow> [SOON \<mapsto> 15, SOMEDAY \<mapsto> 365, NODATE \<mapsto> 9999] n
     | _ \<Rightarrow> None)"

text \<open>
  \<^verbatim>\<open>Date.dt_by_accuracy\<close>. A fuzzy value reads the clock first, then looks its offset
  up (\<^verbatim>\<open>KeyError\<close> when the stored value is not a key), adds it and wraps the sum in
  a new \<^verbatim>\<open>Date\<close>.
\<close>

definition dt_by_accuracy :: "env \<Rightarrow> Date \<Rightarrow> Accuracy \<Rightarrow> pyval io" where
  "dt_by_accuracy E self wanted_accuracy =
    (if wanted_accuracy = accuracy self then io_return (dt_value self)
     else if accuracy self = fuzzy then
       io_bind (datetime_now E) (\<lambda>now.
         case delta_days (dt_value self) of
           None \<Rightarrow> io_raise KeyError
         | Some n \<Rightarrow>
             io_bind (io_lift (py_add (PDatetime now) (PTimedelta (timedelta_days n)))) (\<lambda>s.
             io_bind (Date_init E (AVal s)) (\<lambda>gtg_date.
               if accuracy gtg_date = wanted_accuracy then io_return (dt_value gtg_date)
               else io_lift (static_dt_by_accuracy E (dt_value gtg_date) (accuracy gtg_date)
                               wanted_accuracy))))
     else io_lift (static_dt_by_accuracy E (dt_value self) (accuracy self) wanted_accuracy))"

text \<open>\<^verbatim>\<open>Date.date()\<close>.\<close>

definition Date_date :: "env \<Rightarrow> Date \<Rightarrow> pyval io" where
  "Date_date E self = dt_by_accuracy E self date"

text \<open>
  \<^verbatim>\<open>Date._cast_for_operation\<close>. The \<^verbatim>\<open>for\<close> loop over the three concrete accuracies is
  \<open>cast_loop\<close>; its empty case is the statement after the loop.
\<close>

fun cast_loop :: "env \<Rightarrow> Date \<Rightarrow> Date \<Rightarrow> Accuracy list \<Rightarrow> (pyval \<times> pyval) io" where
  "cast_loop E self other [] =
     io_bind (dt_by_accuracy E self fuzzy) (\<lambda>a.
     io_bind (dt_by_accuracy E other fuzzy) (\<lambda>b. io_return (a, b)))"
| "cast_loop E self other (acc # rest) =
     (if acc = accuracy self \<or> acc = accuracy other
      then io_bind (dt_by_accuracy E self acc) (\<lambda>a.
           io_bind (dt_by_accuracy E other acc) (\<lambda>b. io_return (a, b)))
      else cast_loop E self other rest)"

definition cast_for_operation :: "env \<Rightarrow> Date \<Rightarrow> pyarg \<Rightarrow> bool \<Rightarrow> (pyval \<times> pyval) io" where
  "cast_for_operation E self other is_comparison =
    (case other of
       AVal (PTimedelta td) \<Rightarrow>
         if is_comparison then io_raise ValueError
         else io_return (dt_value self, PTimedelta td)
     | _ \<Rightarrow>
         io_bind (case other of AObj d \<Rightarrow> io_return d | _ \<Rightarrow> Date_init E other) (\<lambda>other.
           if accuracy self = accuracy other
           then io_return (dt_value self, dt_value other)
           else cast_loop E self other [date, datetime, timezone]))"

text \<open>The operators: each normalises its operands and applies Python's operator.\<close>

definition Date_add :: "env \<Rightarrow> Date \<Rightarrow> pyarg \<Rightarrow> pyval io" where
  "Date_add E self other =
    io_bind (cast_for_operation E self other False) (\<lambda>(a, b). io_lift (py_add a b))"

definition Date_sub :: "env \<Rightarrow> Date \<Rightarrow> pyarg \<Rightarrow> pyval io" where
  "Date_sub E self other =
    io_bind (cast_for_operation E self other False) (\<lambda>(a, b). io_lift (py_sub a b))"

definition Date_lt :: "env \<Rightarrow> Date \<Rightarrow> pyarg \<Rightarrow> bool io" where
  "Date_lt E self other =
    io_bind (cast_for_operation E self other True) (\<lambda>(a, b). io_lift (py_lt a b))"

definition Date_le :: "env \<Rightarrow> Date \<Rightarrow> pyarg \<Rightarrow> bool io" where
  "Date_le E self other =
    io_bind (cast_for_operation E self other True) (\<lambda>(a, b). io_lift (py_le a b))"

definition Date_eq :: "env \<Rightarrow> Date \<Rightarrow> pyarg \<Rightarrow> bool io" where
  "Date_eq E self other =
    io_bind (cast_for_operation E self other True) (\<lambda>(a, b). io_lift (py_eq a b))"

definition Date_ne :: "env \<Rightarrow> Date \<Rightarrow> pyarg \<Rightarrow> bool io" where
  "Date_ne E self other = io_bind (Date_eq E self other) (\<lambda>r. io_return (\<not> r))"

definition Date_gt :: "env \<Rightarrow> Date \<Rightarrow> pyarg \<Rightarrow> bool io" where
  "Date_gt E self other =
    io_bind (cast_for_operation E self other True) (\<lambda>(a, b). io_lift (py_gt a b))"

definition Date_ge :: "env \<Rightarrow> Date \<Rightarrow> pyarg \<Rightarrow> bool io" where
  "Date_ge E self other =
    io_bind (cast_for_operation E self other True) (\<lambda>(a, b). io_lift (py_ge a b))"

text \<open>\<^verbatim>\<open>Date.__str__\<close>: the fuzzy table has no entry for \<open>NOW\<close>.\<close>

definition strs :: "pyval \<Rightarrow> string option" where
  "strs v =
    (case v of
       PInt n \<Rightarrow> [SOON \<mapsto> ''soon'', SOMEDAY \<mapsto> ''someday'', NODATE \<mapsto> []] n
     | _ \<Rightarrow> None)"

definition Date_str :: "Date \<Rightarrow> error + string" where
  "Date_str self =
    (if accuracy self = fuzzy then
       (case strs (dt_value self) of None \<Rightarrow> Inl KeyError | Some s \<Rightarrow> Inr s)
     else isoformat (dt_value self))"

subsection \<open>Absolute parsing\<close>

text \<open>
  The second half of \<^verbatim>\<open>_parse_only_month_day\<close> and of its recurrence variant (the two
  differ only in the name of the reference date): \<^verbatim>\<open>replace(day=mday)\<close> on the
  reference date, and, when that raised or gave a date not after the reference, day
  \<open>mday\<close> of the following month; a \<^verbatim>\<open>ValueError\<close> of that second construction
  leaves the first result in place.
\<close>

definition next_month_day :: "pydate \<Rightarrow> int \<Rightarrow> pydate option \<Rightarrow> pydate option" where
  "next_month_day today mday result =
    (let next_month = (if month today = 12 then 1 else month today + 1);
         next_year = (if month today = 12 then year today + 1 else year today)
     in case date_new next_year next_month mday of
          Inl e \<Rightarrow> result
        | Inr r \<Rightarrow> Some r)"

definition resolve_month_day :: "pydate \<Rightarrow> int \<Rightarrow> pydate option" where
  "resolve_month_day today mday =
    (case date_replace_day today mday of
       Inl e \<Rightarrow> next_month_day today mday None
     | Inr r \<Rightarrow> if date_le r today then next_month_day today mday (Some r) else Some r)"

text \<open>\<^verbatim>\<open>Date._parse_only_month_day\<close>: the clock is read after the string is accepted.\<close>

definition parse_only_month_day :: "env \<Rightarrow> string \<Rightarrow> (pydate option) io" where
  "parse_only_month_day E string =
    (case py_int string of
       None \<Rightarrow> io_return None
     | Some mday \<Rightarrow>
         if \<not> (1 \<le> mday \<and> mday \<le> 31) \<or> startswith string ''0'' then io_return None
         else io_bind (date_today E) (\<lambda>today. io_return (resolve_month_day today mday)))"

text \<open>
  The loop of \<^verbatim>\<open>_parse_numerical_format\<close>: it has no \<^verbatim>\<open>break\<close>, so a later format
  that matches replaces the result of an earlier one, and a \<^verbatim>\<open>ValueError\<close> of
  \<^verbatim>\<open>replace(year=...)\<close> leaves the parsed date as the result.
\<close>

fun numerical_loop ::
    "env \<Rightarrow> string \<Rightarrow> pydate \<Rightarrow> pydate option \<Rightarrow> string list \<Rightarrow> pydate option" where
  "numerical_loop E string today result [] = result"
| "numerical_loop E string today result (fmt # fmts) =
     (case strptime E string fmt of
        None \<Rightarrow> numerical_loop E string today result fmts
      | Some t \<Rightarrow>
          (let r = date_of t
           in if \<not> contains fmt ''%Y'' then
                (let y = (if month r > month today \<or>
                             (month r = month today \<and> day r \<ge> day today)
                          then year today else year today + 1)
                 in case date_replace_year r y of
                      Inl e \<Rightarrow> numerical_loop E string today (Some r) fmts
                    | Inr r' \<Rightarrow> numerical_loop E string today (Some r') fmts)
              else numerical_loop E string today (Some r) fmts))"

definition parse_numerical_format :: "env \<Rightarrow> string \<Rightarrow> (pydate option) io" where
  "parse_numerical_format E string =
    io_bind (date_today E) (\<lambda>today.
      io_return (numerical_loop E string today None [''%Y/%m/%d'', ''%Y%m%d'', ''%m%d'']))"

text \<open>
  The weekday loop shared by the two text parsers: entry \<open>i\<close> of the enumeration
  stores its offset under the English name and under its translation, both lowercased.
\<close>

definition WEEKDAYS :: "(int \<times> string) list" where
  "WEEKDAYS =
    [(0, ''Monday''), (1, ''Tuesday''), (2, ''Wednesday''), (3, ''Thursday''),
     (4, ''Friday''), (5, ''Saturday''), (6, ''Sunday'')]"

fun add_weekdays ::
    "env \<Rightarrow> int \<Rightarrow> (string \<rightharpoonup> int) \<Rightarrow> (int \<times> string) list \<Rightarrow> (string \<rightharpoonup> int)" where
  "add_weekdays E wd formats [] = formats"
| "add_weekdays E wd formats ((i, english) # rest) =
     (let offset = i - wd + 7 * (if i \<le> wd then 1 else 0)
      in add_weekdays E wd
           (formats(lower english \<mapsto> offset, lower (gettext E english) \<mapsto> offset)) rest)"

text \<open>\<^verbatim>\<open>Date._parse_text_representation\<close>.\<close>

definition text_formats :: "env \<Rightarrow> pydate \<Rightarrow> string \<rightharpoonup> int" where
  "text_formats E today =
    add_weekdays E (weekday today)
      [''today'' \<mapsto> 0,
       lower (gettext E ''today'') \<mapsto> 0,
       ''tomorrow'' \<mapsto> 1,
       lower (gettext E ''tomorrow'') \<mapsto> 1,
       ''next week'' \<mapsto> 7,
       lower (gettext E ''next week'') \<mapsto> 7,
       ''next month'' \<mapsto> mdays ! nat (month today),
       lower (gettext E ''next month'') \<mapsto> mdays ! nat (month today),
       ''next year'' \<mapsto> 365 + (if isleap (year today) then 1 else 0),
       lower (gettext E ''next year'') \<mapsto> 365 + (if isleap (year today) then 1 else 0)]
      WEEKDAYS"

definition parse_text_representation :: "env \<Rightarrow> string \<Rightarrow> (pydate option) io" where
  "parse_text_representation E string =
    io_bind (date_today E) (\<lambda>today.
      case text_formats E today string of
        None \<Rightarrow> io_return None
      | Some offset \<Rightarrow>
          io_bind (io_lift (date_add today (timedelta_days offset)))
            (\<lambda>r. io_return (Some r)))"

text \<open>
  \<^verbatim>\<open>Date.parse\<close>: only the \<^verbatim>\<open>ValueError\<close> of the direct construction is caught. The
  three parsers after it are tried in order until one returns a date.
\<close>

definition parse :: "env \<Rightarrow> string option \<Rightarrow> Date io" where
  "parse E string0 c =
    (let string = (case string0 of None \<Rightarrow> [] | Some s \<Rightarrow> lower s)
     in case Date_init E (AStr string) c of
          (Inr d, c') \<Rightarrow> (Inr d, c')
        | (Inl e, c') \<Rightarrow>
            if e \<noteq> ValueError then (Inl e, c')
            else
              io_bind (parse_only_month_day E string) (\<lambda>r1.
              io_bind (case r1 of
                         None \<Rightarrow> parse_numerical_format E string
                       | Some d \<Rightarrow> io_return r1) (\<lambda>r2.
              io_bind (case r2 of
                         None \<Rightarrow> parse_text_representation E string
                       | Some d \<Rightarrow> io_return r2) (\<lambda>r3.
                case r3 of
                  Some d \<Rightarrow> Date_init E (AVal (PDate d))
                | None \<Rightarrow> io_raise ValueError))) c')"

subsection \<open>Recurrence-relative parsing\<close>

text \<open>
  The three recurrence parsers start with \<^verbatim>\<open>self.dt_by_accuracy(Accuracy.date)\<close>,
  whose result is a date whenever it returns (lemma \<open>dt_by_accuracy_date_kind\<close>
  below); \<open>as_date\<close> reads it as one.
\<close>

definition as_date :: "pyval \<Rightarrow> error + pydate" where
  "as_date v = (case v of PDate d \<Rightarrow> Inr d | _ \<Rightarrow> Inl AttributeError)"

definition self_date_of :: "env \<Rightarrow> Date \<Rightarrow> pydate io" where
  "self_date_of E self = io_bind (dt_by_accuracy E self date) (\<lambda>v. io_lift (as_date v))"

text \<open>\<^verbatim>\<open>Date._parse_only_month_day_for_recurrency\<close>.\<close>

definition parse_only_month_day_for_recurrency ::
    "env \<Rightarrow> Date \<Rightarrow> string \<Rightarrow> bool \<Rightarrow> (pydate option) io" where
  "parse_only_month_day_for_recurrency E self string newtask =
    io_bind (self_date_of E self) (\<lambda>self_date.
    io_bind (if \<not> newtask then io_lift (date_add self_date (timedelta_days 1))
             else io_return self_date) (\<lambda>self_date.
      case py_int string of
        None \<Rightarrow> io_return None
      | Some mday \<Rightarrow>
          if \<not> (1 \<le> mday \<and> mday \<le> 31) \<or> startswith string ''0'' then io_return None
          else io_return (resolve_month_day self_date mday)))"

text \<open>\<^verbatim>\<open>Date._parse_numerical_format_for_recurrency\<close>.\<close>

definition parse_numerical_format_for_recurrency ::
    "env \<Rightarrow> Date \<Rightarrow> string \<Rightarrow> bool \<Rightarrow> (pydate option) io" where
  "parse_numerical_format_for_recurrency E self string newtask =
    io_bind (self_date_of E self) (\<lambda>self_date.
    io_bind (if \<not> newtask then io_lift (date_add self_date (timedelta_days 1))
             else io_return self_date) (\<lambda>self_date.
      io_return (numerical_loop E string self_date None [''%Y/%m/%d'', ''%Y%m%d'', ''%m%d''])))"

text \<open>
  \<^verbatim>\<open>Date._parse_text_representation_for_recurrency\<close>: the offsets of the duration
  phrases depend on \<open>newtask\<close>, those of the weekday names do not.
\<close>

definition recurrency_formats :: "env \<Rightarrow> pydate \<Rightarrow> bool \<Rightarrow> string \<rightharpoonup> int" where
  "recurrency_formats E self_date newtask =
    add_weekdays E (weekday self_date)
      [''day'' \<mapsto> (if newtask then 0 else 1),
       lower (gettext E ''day'') \<mapsto> (if newtask then 0 else 1),
       ''other-day'' \<mapsto> (if newtask then 0 else 2),
       lower (gettext E ''other-day'') \<mapsto> (if newtask then 0 else 2),
       ''week'' \<mapsto> (if newtask then 0 else 7),
       lower (gettext E ''week'') \<mapsto> (if newtask then 0 else 7),
       ''month'' \<mapsto> (if newtask then 0 else mdays ! nat (month self_date)),
       lower (gettext E ''month'') \<mapsto> (if newtask then 0 else mdays ! nat (month self_date)),
       ''year'' \<mapsto> (if newtask then 0 else 365 + (if isleap (year self_date) then 1 else 0)),
       lower (gettext E ''year'') \<mapsto>
         (if newtask then 0 else 365 + (if isleap (year self_date) then 1 else 0))]
      WEEKDAYS"

definition parse_text_representation_for_recurrency ::
    "env \<Rightarrow> Date \<Rightarrow> string \<Rightarrow> bool \<Rightarrow> (pydate option) io" where
  "parse_text_representation_for_recurrency E self string newtask =
    io_bind (self_date_of E self) (\<lambda>self_date.
      case recurrency_formats E self_date newtask string of
        None \<Rightarrow> io_return None
      | Some offset \<Rightarrow>
          io_bind (io_lift (date_add self_date (timedelta_days offset)))
            (\<lambda>r. io_return (Some r)))"

text \<open>\<^verbatim>\<open>Date.parse_from_date\<close>.\<close>

definition parse_from_date :: "env \<Rightarrow> Date \<Rightarrow> string option \<Rightarrow> bool \<Rightarrow> Date io" where
  "parse_from_date E self string0 newtask c =
    (let string = (case string0 of None \<Rightarrow> [] | Some s \<Rightarrow> lower s)
     in case Date_init E (AStr string) c of
          (Inr d, c') \<Rightarrow> (Inr d, c')
        | (Inl e, c') \<Rightarrow>
            if e \<noteq> ValueError then (Inl e, c')
            else
              io_bind (parse_only_month_day_for_recurrency E self string newtask) (\<lambda>r1.
              io_bind (case r1 of
                         None \<Rightarrow> parse_numerical_format_for_recurrency E self string newtask
                       | Some d \<Rightarrow> io_return r1) (\<lambda>r2.
              io_bind (case r2 of
                         None \<Rightarrow> parse_text_representation_for_recurrency E self string newtask
                       | Some d \<Rightarrow> io_return r2) (\<lambda>r3.
                case r3 of
                  Some d \<Rightarrow> Date_init E (AVal (PDate d))
                | None \<Rightarrow> io_raise ValueError))) c')"

subsection \<open>The comparisons the specification talks about\<close>

text \<open>
  The accuracy the specification names for two operands of different accuracies: the
  first of date, datetime, timezone that is the accuracy of either operand.
\<close>

definition first_common_accuracy :: "Accuracy \<Rightarrow> Accuracy \<Rightarrow> Accuracy option" where
  "first_common_accuracy a b = find (\<lambda>x. x = a \<or> x = b) [date, datetime, timezone]"

text \<open>The expression \<^verbatim>\<open>Date(x) == Date(x)\<close>: left operand first.\<close>

definition construct_twice_eq :: "env \<Rightarrow> pyarg \<Rightarrow> bool io" where
  "construct_twice_eq E x =
    io_bind (Date_init E x) (\<lambda>a. io_bind (Date_init E x) (\<lambda>b. Date_eq E a (AObj b)))"

subsection \<open>A concrete environment\<close>

text \<open>
  The environment of the examples: an untranslated catalogue, the formats of the C
  locale, UTC+1 as the local timezone, and a clock whose \<open>n\<close>-th reading is \<open>n\<close>
  microseconds after noon of 10 April 2023. Its \<^verbatim>\<open>date.fromisoformat\<close> accepts the
  calendar format \<^verbatim>\<open>YYYY-MM-DD\<close>; the examples apply the other two parsers only to
  strings that the library rejects under every format (\<^verbatim>\<open>now\<close>, \<^verbatim>\<open>month\<close>, \<^verbatim>\<open>31\<close>
  and the like), so they are the functions that reject.
\<close>

fun dec_digits :: "string \<Rightarrow> int \<Rightarrow> int option" where
  "dec_digits [] acc = Some acc"
| "dec_digits (c # cs) acc =
     (case digit_val c of None \<Rightarrow> None | Some v \<Rightarrow> dec_digits cs (acc * 10 + v))"

definition iso_calendar_date :: "string \<Rightarrow> pydate option" where
  "iso_calendar_date s =
    (if length s = 10 \<and> s ! 4 = CHR ''-'' \<and> s ! 7 = CHR ''-'' then
       (case (dec_digits (take 4 s) 0, dec_digits (take 2 (drop 5 s)) 0,
              dec_digits (drop 8 s) 0) of
          (Some y, Some m, Some d) \<Rightarrow>
            (case date_new y m d of Inl e \<Rightarrow> None | Inr r \<Rightarrow> Some r)
        | _ \<Rightarrow> None)
     else None)"

definition clock0 :: "nat \<Rightarrow> pydatetime" where
  "clock0 n =
    \<lparr>date_of = \<lparr>year = 2023, month = 4, day = 10\<rparr>,
     hour = 12, minute = 0, second = 0, microsecond = int n, tzinfo = None\<rparr>"

definition env0 :: env where
  "env0 =
    \<lparr>clock = clock0,
     LOCAL_TIMEZONE = 3600000000,
     gettext = (\<lambda>s. s),
     D_T_FMT = ''%a %b %e %H:%M:%S %Y'',
     D_FMT = ''%m/%d/%y'',
     date_fromisoformat = iso_calendar_date,
     datetime_fromisoformat = (\<lambda>s. None),
     strptime = (\<lambda>s fmt. None)\<rparr>"

text \<open>
  The spec's "midnight of that date, naive": what a date becomes at datetime accuracy.
\<close>

definition midnight :: "pydate \<Rightarrow> pydatetime" where
  "midnight d =
    \<lparr>date_of = d, hour = 0, minute = 0, second = 0, microsecond = 0, tzinfo = None\<rparr>"

text \<open>
  The spec's resolution of a fuzzy value for a cast: the current instant plus \<open>n\<close>
  days, as a concrete Date, cast to the wanted accuracy.
\<close>

definition resolved_cast :: "env \<Rightarrow> int \<Rightarrow> Accuracy \<Rightarrow> pyval io" where
  "resolved_cast E n wanted_accuracy =
    io_bind (datetime_now E) (\<lambda>now.
    io_bind (io_lift (datetime_add now (timedelta_days n))) (\<lambda>s.
      dt_by_accuracy E \<lparr>dt_value = PDatetime s\<rparr> wanted_accuracy))"

text \<open>
  The inputs of the constructor that stand for "now": the integer code 0, and a string
  that no date format accepts and that is the token \<^verbatim>\<open>now\<close> or its lowercased
  translation. These are the inputs for which \<^verbatim>\<open>__init__\<close> calls \<^verbatim>\<open>datetime.now()\<close>.
\<close>

definition is_now_input :: "env \<Rightarrow> pyarg \<Rightarrow> bool" where
  "is_now_input E x =
    (case x of
       AVal (PInt n) \<Rightarrow> n = 0
     | AStr s \<Rightarrow>
         s \<noteq> ''None'' \<and> s \<noteq> [] \<and> date_fromisoformat E s = None \<and>
         datetime_fromisoformat E s = None \<and> try_formats E s (DATE_FORMATS E) = None \<and>
         (s = ''now'' \<or> s = lower (gettext E ''now''))
     | _ \<Rightarrow> False)"

text \<open>
  Day \<open>mday\<close> of the month of a date, and of the month after it (January of the next
  year after December), as the triples the spec's rule for a bare day number names.
\<close>

definition day_in_month :: "pydate \<Rightarrow> int \<Rightarrow> pydate" where
  "day_in_month today mday = \<lparr>year = year today, month = month today, day = mday\<rparr>"

definition day_in_next_month :: "pydate \<Rightarrow> int \<Rightarrow> pydate" where
  "day_in_next_month today mday =
    \<lparr>year = (if month today = 12 then year today + 1 else year today),
     month = (if month today = 12 then 1 else month today + 1),
     day = mday\<rparr>"

text \<open>
  The vocabulary of the claims about \<^verbatim>\<open>parse_from_date\<close>. The calendar date of the
  anchor is what \<^verbatim>\<open>self.dt_by_accuracy(Accuracy.date)\<close> returns in each of the three
  parsers (a fuzzy anchor reads the clock each time, a concrete one never does). A
  phrase is the anchor's own when no other key of the recurrence vocabulary is
  translated to it. A string is no date literal when the direct construction and the
  three numerical formats reject it.
\<close>

definition anchor_date :: "env \<Rightarrow> Date \<Rightarrow> nat \<Rightarrow> pydate \<Rightarrow> bool" where
  "anchor_date E self c d =
    (fst (self_date_of E self c) = Inr d \<and>
     fst (self_date_of E self (Suc c)) = Inr d \<and>
     fst (self_date_of E self (Suc (Suc c))) = Inr d)"

definition RECURRENCY_KEYS :: "string list" where
  "RECURRENCY_KEYS =
    [''day'', ''other-day'', ''week'', ''month'', ''year'', ''Monday'', ''Tuesday'',
     ''Wednesday'', ''Thursday'', ''Friday'', ''Saturday'', ''Sunday'']"

definition own_phrase :: "env \<Rightarrow> string \<Rightarrow> bool" where
  "own_phrase E p = (\<forall>k \<in> set RECURRENCY_KEYS. lower k \<noteq> p \<longrightarrow> lower (gettext E k) \<noteq> p)"

definition no_date_literal :: "env \<Rightarrow> string \<Rightarrow> nat \<Rightarrow> bool" where
  "no_date_literal E p c =
    (fst (Date_init E (AStr p) c) = Inl ValueError \<and>
     (\<forall>fmt \<in> set [''%Y/%m/%d'', ''%Y%m%d'', ''%m%d'']. strptime E p fmt = None))"

text \<open>The periods of the duration phrases when \<open>newtask\<close> is false.\<close>

definition duration_periods :: "pydate \<Rightarrow> (string \<times> int) list" where
  "duration_periods d =
    [(''day'', 1), (''other-day'', 2), (''week'', 7), (''month'', mdays ! nat (month d)),
     (''year'', 365 + (if isleap (year d) then 1 else 0))]"

text \<open>The offset of weekday \<open>i\<close> from a date: from 1 to 7 days.\<close>

definition weekday_offset :: "pydate \<Rightarrow> int \<Rightarrow> int" where
  "weekday_offset d i = i - weekday d + 7 * (if i \<le> weekday d then 1 else 0)"

text \<open>The Date that the parsers return for a date, or the exception of computing it.\<close>

definition date_result :: "error + pydate \<Rightarrow> error + Date" where
  "date_result r = (case r of Inl e \<Rightarrow> Inl e | Inr x \<Rightarrow> Inr \<lparr>dt_value = PDate x\<rparr>)"

section \<open>Properties\<close>

subsection \<open>Basic facts\<close>

lemmas io_defs = io_bind_def io_return_def io_raise_def io_lift_def

lemma date_new_valid: "valid_date d \<Longrightarrow> date_new (year d) (month d) (day d) = Inr d"
  by (cases d) (simp add: date_new_def)

lemma date_new_error: "date_new y m d = Inl e \<Longrightarrow> e = ValueError"
  by (simp add: date_new_def Let_def split: if_splits)

lemma datetime_new_error: "datetime_new y m d tz = Inl e \<Longrightarrow> e = ValueError"
  by (auto simp add: datetime_new_def split: sum.splits dest: date_new_error)

lemma datetime_add_error: "datetime_add t td = Inl e \<Longrightarrow> e = OverflowError"
  by (simp add: datetime_add_def Let_def split: if_splits)

lemma datetime_add_tzinfo: "datetime_add t td = Inr r \<Longrightarrow> tzinfo r = tzinfo t"
  by (auto simp add: datetime_add_def Let_def split: if_splits)

lemma date_add_error: "date_add t td = Inl e \<Longrightarrow> e = OverflowError"
  by (simp add: date_add_def Let_def split: if_splits)

lemma astimezone_error: "astimezone l t tz = Inl e \<Longrightarrow> e = OverflowError"
  by (auto simp add: astimezone_def split: if_splits sum.splits dest: datetime_add_error)

subsection \<open>Durations as operands\<close>

text \<open>
  C6. Every comparison operator applied to a Date and a bare timedelta raises (the
  \<^verbatim>\<open>ValueError\<close> of \<^verbatim>\<open>_cast_for_operation\<close>); for arithmetic the normalisation returns
  the stored value of the Date and the duration unmodified, and \<^verbatim>\<open>+\<close> and \<^verbatim>\<open>-\<close> are
  Python's operators applied to that pair. No clock reading is made.
\<close>

theorem timedelta_operand:
  "Date_lt E self (AVal (PTimedelta td)) c = (Inl ValueError, c) \<and>
   Date_le E self (AVal (PTimedelta td)) c = (Inl ValueError, c) \<and>
   Date_eq E self (AVal (PTimedelta td)) c = (Inl ValueError, c) \<and>
   Date_ne E self (AVal (PTimedelta td)) c = (Inl ValueError, c) \<and>
   Date_gt E self (AVal (PTimedelta td)) c = (Inl ValueError, c) \<and>
   Date_ge E self (AVal (PTimedelta td)) c = (Inl ValueError, c) \<and>
   cast_for_operation E self (AVal (PTimedelta td)) False c =
     (Inr (dt_value self, PTimedelta td), c) \<and>
   Date_add E self (AVal (PTimedelta td)) c = (py_add (dt_value self) (PTimedelta td), c) \<and>
   Date_sub E self (AVal (PTimedelta td)) c = (py_sub (dt_value self) (PTimedelta td), c)"
  by (simp add: Date_lt_def Date_le_def Date_eq_def Date_ne_def Date_gt_def Date_ge_def
      Date_add_def Date_sub_def cast_for_operation_def io_defs)

text \<open>An instance: a week added to 10 April 2023, and the same date compared with a week.\<close>

theorem timedelta_operand_witness:
  "Date_add env0 \<lparr>dt_value = PDate \<lparr>year = 2023, month = 4, day = 10\<rparr>\<rparr>
     (AVal (PTimedelta (timedelta_days 7))) 0
     = (Inr (PDate \<lparr>year = 2023, month = 4, day = 17\<rparr>), 0) \<and>
   Date_lt env0 \<lparr>dt_value = PDate \<lparr>year = 2023, month = 4, day = 10\<rparr>\<rparr>
     (AVal (PTimedelta (timedelta_days 7))) 0 = (Inl ValueError, 0)"
proof -
  have "py_add (PDate \<lparr>year = 2023, month = 4, day = 10\<rparr>) (PTimedelta (timedelta_days 7))
          = Inr (PDate \<lparr>year = 2023, month = 4, day = 17\<rparr>)"
    by (simp add: date_add_def toordinal_def ymd2ord_def days_before_year_def
        days_before_month_def DAYS_BEFORE_MONTH_def isleap_def td_days_def timedelta_days_def
        DAY_US_def MAXORDINAL_def fromordinal_def ord2ymd_def Let_def DAYS_IN_MONTH_def)
  then show ?thesis
    using timedelta_operand [of env0 "\<lparr>dt_value = PDate \<lparr>year = 2023, month = 4, day = 10\<rparr>\<rparr>"
        "timedelta_days 7" 0]
    by simp
qed

subsection \<open>Round trips between date and datetime accuracy\<close>

text \<open>
  C8. A date-accuracy Date cast to datetime accuracy is midnight of that day, and that
  value cast back to date accuracy is the original date. In the other direction a naive
  datetime cast to date accuracy and back is midnight of its day, which is the original
  value only when its time of day is zero: the time of day is discarded.
\<close>

theorem date_datetime_round_trip:
  "(valid_date d \<longrightarrow>
      dt_by_accuracy E \<lparr>dt_value = PDate d\<rparr> datetime c = (Inr (PDatetime (midnight d)), c) \<and>
      dt_by_accuracy E \<lparr>dt_value = PDatetime (midnight d)\<rparr> date c = (Inr (PDate d), c)) \<and>
   (valid_date (date_of t) \<and> tzinfo t = None \<longrightarrow>
      dt_by_accuracy E \<lparr>dt_value = PDatetime t\<rparr> date c = (Inr (PDate (date_of t)), c) \<and>
      dt_by_accuracy E \<lparr>dt_value = PDate (date_of t)\<rparr> datetime c
        = (Inr (PDatetime (midnight (date_of t))), c) \<and>
      (midnight (date_of t) = t
         \<longleftrightarrow> hour t = 0 \<and> minute t = 0 \<and> second t = 0 \<and> microsecond t = 0))"
  by (cases t)
     (auto simp add: dt_by_accuracy_def accuracy_def static_dt_by_accuracy_def io_defs
        ymd_of_def datetime_new_def date_new_valid midnight_def)

text \<open>
  An instance: 10 April 2023 survives the round trip; noon of that day does not.
\<close>

theorem date_datetime_round_trip_witness:
  "valid_date \<lparr>year = 2023, month = 4, day = 10\<rparr> \<and>
   dt_by_accuracy env0 \<lparr>dt_value = PDate \<lparr>year = 2023, month = 4, day = 10\<rparr>\<rparr> datetime 0
     = (Inr (PDatetime (midnight \<lparr>year = 2023, month = 4, day = 10\<rparr>)), 0) \<and>
   dt_by_accuracy env0 \<lparr>dt_value = PDatetime (midnight \<lparr>year = 2023, month = 4, day = 10\<rparr>)\<rparr>
     date 0 = (Inr (PDate \<lparr>year = 2023, month = 4, day = 10\<rparr>), 0) \<and>
   dt_by_accuracy env0 \<lparr>dt_value = PDatetime (clock0 0)\<rparr> date 0
     = (Inr (PDate \<lparr>year = 2023, month = 4, day = 10\<rparr>), 0) \<and>
   midnight (date_of (clock0 0)) \<noteq> clock0 0"
proof -
  have v: "valid_date \<lparr>year = 2023, month = 4, day = 10\<rparr>"
    by (simp add: valid_date_def MINYEAR_def MAXYEAR_def days_in_month_def DAYS_IN_MONTH_def)
  have t: "valid_date (date_of (clock0 0)) \<and> tzinfo (clock0 0) = None"
    using v by (simp add: clock0_def)
  show ?thesis
    using v t
      date_datetime_round_trip [of "\<lparr>year = 2023, month = 4, day = 10\<rparr>" env0 0 "clock0 0"]
    by (simp add: clock0_def)
qed

subsection \<open>Casting never fails an assertion\<close>

lemma static_no_assert:
  "acc \<noteq> fuzzy \<Longrightarrow> w \<noteq> fuzzy \<Longrightarrow> acc \<noteq> w \<Longrightarrow>
   static_dt_by_accuracy E v acc w \<noteq> Inl AssertionError"
  by (cases acc; cases w)
     (auto simp add: static_dt_by_accuracy_def split: option.splits sum.splits pyval.splits
           dest: datetime_new_error astimezone_error)

lemma accuracy_cases:
  "accuracy self = fuzzy \<longleftrightarrow> (\<exists>n. dt_value self = PInt n) \<or> (\<exists>td. dt_value self = PTimedelta td)"
  "accuracy self = date \<longleftrightarrow> (\<exists>d. dt_value self = PDate d)"
  "accuracy self = datetime \<longleftrightarrow> (\<exists>t. dt_value self = PDatetime t \<and> tzinfo t = None)"
  "accuracy self = timezone \<longleftrightarrow> (\<exists>t z. dt_value self = PDatetime t \<and> tzinfo t = Some z)"
  by (auto simp add: accuracy_def split: pyval.splits)

lemma dt_by_accuracy_same: "accuracy self = w \<Longrightarrow> dt_by_accuracy E self w c = (Inr (dt_value self), c)"
  by (simp add: dt_by_accuracy_def io_defs)

lemma dt_by_accuracy_concrete:
  "accuracy self \<noteq> fuzzy \<Longrightarrow> accuracy self \<noteq> w \<Longrightarrow>
   dt_by_accuracy E self w c = (static_dt_by_accuracy E (dt_value self) (accuracy self) w, c)"
  by (auto simp add: dt_by_accuracy_def io_defs)

lemma dt_by_accuracy_fuzzy:
  "accuracy self = fuzzy \<Longrightarrow> w \<noteq> fuzzy \<Longrightarrow>
   dt_by_accuracy E self w c =
     (case delta_days (dt_value self) of
        None \<Rightarrow> (Inl KeyError, Suc c)
      | Some n \<Rightarrow>
         (case datetime_add ((clock E c)\<lparr>tzinfo := None\<rparr>) (timedelta_days n) of
            Inl e \<Rightarrow> (Inl e, Suc c)
          | Inr s \<Rightarrow>
             (if w = datetime then Inr (PDatetime s)
              else static_dt_by_accuracy E (PDatetime s) datetime w, Suc c)))"
  by (auto simp add: dt_by_accuracy_def io_defs datetime_now_def Date_init_def accuracy_def
      split: option.splits sum.splits dest: datetime_add_tzinfo)

lemma dt_by_accuracy_no_assert:
  "w \<noteq> fuzzy \<or> accuracy self = fuzzy \<Longrightarrow> fst (dt_by_accuracy E self w c) \<noteq> Inl AssertionError"
proof (cases "accuracy self = w")
  case True
  then show ?thesis by (simp add: dt_by_accuracy_same)
next
  case False
  assume a: "w \<noteq> fuzzy \<or> accuracy self = fuzzy"
  with False have w: "w \<noteq> fuzzy" by auto
  show ?thesis
  proof (cases "accuracy self = fuzzy")
    case True
    show ?thesis
      using static_no_assert [of datetime w] w
      by (auto simp add: dt_by_accuracy_fuzzy [OF True w] split: option.splits sum.splits
               dest: datetime_add_error)
  next
    case f: False
    show ?thesis
      using static_no_assert [OF f w False] by (simp add: dt_by_accuracy_concrete [OF f False])
  qed
qed


lemma cast_loop_find:
  "find (\<lambda>x. x = accuracy self \<or> x = accuracy other) accs = Some A \<Longrightarrow>
   cast_loop E self other accs =
     io_bind (dt_by_accuracy E self A) (\<lambda>a.
     io_bind (dt_by_accuracy E other A) (\<lambda>b. io_return (a, b)))"
  by (induction accs) (auto split: if_splits)

lemma first_common_accuracy_Some:
  "a \<noteq> b \<Longrightarrow> \<exists>A. first_common_accuracy a b = Some A \<and> A \<noteq> fuzzy \<and> (A = a \<or> A = b)"
  by (cases a; cases b) (simp_all add: first_common_accuracy_def)

lemma cast_for_operation_Date:
  "cast_for_operation E self (AObj other) cmp c =
    (if accuracy self = accuracy other then (Inr (dt_value self, dt_value other), c)
     else cast_loop E self other [date, datetime, timezone] c)"
  by (simp add: cast_for_operation_def io_defs)


lemma Date_init_error: "Date_init E v c = (Inl e, c') \<Longrightarrow> e = ValueError"
  by (auto simp add: Date_init_def io_defs parse_dt_str_def datetime_now_def
      split: pyarg.splits pyval.splits if_splits option.splits prod.splits sum.splits)

lemma io_bind_no_assert:
  assumes "\<And>c. fst (m c) \<noteq> Inl AssertionError"
    and "\<And>x c. fst (f x c) \<noteq> Inl AssertionError"
  shows "fst (io_bind m f c) \<noteq> Inl AssertionError"
proof (cases "m c")
  case (Pair r c')
  then show ?thesis
    using assms(1) [of c] assms(2) by (cases r) (auto simp add: io_bind_def)
qed

lemma cast_for_operation_no_assert:
  "fst (cast_for_operation E self other cmp c) \<noteq> Inl AssertionError"
proof -
  have loop: "fst (cast_loop E self d [date, datetime, timezone] k) \<noteq> Inl AssertionError"
    if neq: "accuracy self \<noteq> accuracy d" for d k
  proof -
    obtain A where A: "first_common_accuracy (accuracy self) (accuracy d) = Some A" "A \<noteq> fuzzy"
      using first_common_accuracy_Some [OF neq] by blast
    have e: "cast_loop E self d [date, datetime, timezone] =
       io_bind (dt_by_accuracy E self A) (\<lambda>a.
       io_bind (dt_by_accuracy E d A) (\<lambda>b. io_return (a, b)))"
      using A(1) by (intro cast_loop_find) (simp add: first_common_accuracy_def)
    have "fst (dt_by_accuracy E x A j) \<noteq> Inl AssertionError" for x j
      using A(2) by (intro dt_by_accuracy_no_assert) simp
    then show ?thesis
      unfolding e by (intro io_bind_no_assert) (simp_all add: io_return_def)
  qed
  have body: "fst ((if accuracy self = accuracy d then io_return (dt_value self, dt_value d)
                else cast_loop E self d [date, datetime, timezone]) k) \<noteq> Inl AssertionError" for d k
    using loop [of d k] by (simp add: io_return_def)
  have init: "fst (Date_init E v k) \<noteq> Inl AssertionError" for v k
    using Date_init_error [of E v k] by (cases "Date_init E v k") auto
  have bind_init: "fst (io_bind (Date_init E v)
      (\<lambda>d. if accuracy self = accuracy d then io_return (dt_value self, dt_value d)
            else cast_loop E self d [date, datetime, timezone]) k) \<noteq> Inl AssertionError" for v k
    by (rule io_bind_no_assert) (rule init, rule body)
  show ?thesis
  proof (cases other)
    case ANone
    then show ?thesis using bind_init [of ANone c] by (simp add: cast_for_operation_def)
  next
    case (AStr s)
    then show ?thesis using bind_init [of "AStr s" c] by (simp add: cast_for_operation_def)
  next
    case (AVal v)
    then show ?thesis
      using bind_init [of "AVal v" c]
      by (cases v) (simp_all add: cast_for_operation_def io_raise_def io_return_def)
  next
    case (AObj d)
    then show ?thesis
      using body [of d c] by (simp add: cast_for_operation_def io_bind_def io_return_def)
  qed
qed

lemma py_cmp_error: "py_cmp a b = Inl e \<Longrightarrow> e = TypeError"
  by (cases a; cases b) (auto split: option.splits)

lemma py_add_error: "py_add a b = Inl e \<Longrightarrow> e = TypeError \<or> e = OverflowError"
  by (cases a; cases b) (auto split: sum.splits dest: date_add_error datetime_add_error)

lemma py_sub_error: "py_sub a b = Inl e \<Longrightarrow> e = TypeError \<or> e = OverflowError"
  by (cases a; cases b) (auto split: sum.splits option.splits dest: date_add_error datetime_add_error)

lemma operator_no_assert:
  assumes "\<And>a b. f a b \<noteq> Inl AssertionError"
  shows "fst (io_bind (cast_for_operation E self other cmp) (\<lambda>(a, b). io_lift (f a b)) c)
           \<noteq> Inl AssertionError"
  using assms
  by (intro io_bind_no_assert cast_for_operation_no_assert) (auto simp add: io_lift_def)

text \<open>
  C9. The assertion branches of \<^verbatim>\<open>_dt_by_accuracy\<close> exist (a fuzzy source accuracy, or
  fuzzy as the wanted accuracy, is an \<^verbatim>\<open>AssertionError\<close>), but no operand normalisation
  and no comparison or arithmetic operator reaches them, whatever the two operands are:
  the normalisation asks for date, datetime or timezone only, of a value whose accuracy
  differs from the one asked for, and a fuzzy value is made concrete before the static
  caster is called.
\<close>

theorem assertion_branch_unreachable:
  "fst (cast_for_operation E self other cmp c) \<noteq> Inl AssertionError \<and>
   fst (Date_add E self other c) \<noteq> Inl AssertionError \<and>
   fst (Date_sub E self other c) \<noteq> Inl AssertionError \<and>
   fst (Date_lt E self other c) \<noteq> Inl AssertionError \<and>
   fst (Date_le E self other c) \<noteq> Inl AssertionError \<and>
   fst (Date_eq E self other c) \<noteq> Inl AssertionError \<and>
   fst (Date_ne E self other c) \<noteq> Inl AssertionError \<and>
   fst (Date_gt E self other c) \<noteq> Inl AssertionError \<and>
   fst (Date_ge E self other c) \<noteq> Inl AssertionError \<and>
   static_dt_by_accuracy E v fuzzy timezone = Inl AssertionError \<and>
   static_dt_by_accuracy E v fuzzy datetime = Inl AssertionError \<and>
   static_dt_by_accuracy E v acc fuzzy = Inl AssertionError"
proof -
  have eq: "fst (Date_eq E self other k) \<noteq> Inl AssertionError" for k
    unfolding Date_eq_def
    by (rule operator_no_assert) (auto simp add: py_eq_def split: sum.splits)
  have ne: "fst (Date_ne E self other c) \<noteq> Inl AssertionError"
    unfolding Date_ne_def using eq by (intro io_bind_no_assert) (auto simp add: io_return_def)
  have "fst (Date_add E self other c) \<noteq> Inl AssertionError"
    unfolding Date_add_def by (rule operator_no_assert) (use py_add_error in blast)
  moreover have "fst (Date_sub E self other c) \<noteq> Inl AssertionError"
    unfolding Date_sub_def by (rule operator_no_assert) (use py_sub_error in blast)
  moreover have "fst (Date_lt E self other c) \<noteq> Inl AssertionError"
    unfolding Date_lt_def
    by (rule operator_no_assert) (auto simp add: py_lt_def split: sum.splits dest: py_cmp_error)
  moreover have "fst (Date_le E self other c) \<noteq> Inl AssertionError"
    unfolding Date_le_def
    by (rule operator_no_assert) (auto simp add: py_le_def split: sum.splits dest: py_cmp_error)
  moreover have "fst (Date_gt E self other c) \<noteq> Inl AssertionError"
    unfolding Date_gt_def
    by (rule operator_no_assert) (auto simp add: py_gt_def split: sum.splits dest: py_cmp_error)
  moreover have "fst (Date_ge E self other c) \<noteq> Inl AssertionError"
    unfolding Date_ge_def
    by (rule operator_no_assert) (auto simp add: py_ge_def split: sum.splits dest: py_cmp_error)
  moreover have "static_dt_by_accuracy E v fuzzy timezone = Inl AssertionError"
    "static_dt_by_accuracy E v fuzzy datetime = Inl AssertionError"
    "static_dt_by_accuracy E v acc fuzzy = Inl AssertionError"
    by (simp_all add: static_dt_by_accuracy_def)
  ultimately show ?thesis
    using eq ne cast_for_operation_no_assert by blast
qed

subsection \<open>Operand normalisation and fuzzy casts\<close>






lemma fuzzy_accuracy: "accuracy \<lparr>dt_value = PInt n\<rparr> = fuzzy"
  by (simp add: accuracy_def)

lemma dt_by_accuracy_resolved:
  assumes "w \<noteq> fuzzy" "delta_days (PInt n) = Some k"
  shows "dt_by_accuracy E \<lparr>dt_value = PInt n\<rparr> w c = resolved_cast E k w c"
proof (cases "datetime_add ((clock E c)\<lparr>tzinfo := None\<rparr>) (timedelta_days k)")
  case (Inl e)
  then show ?thesis
    using assms
    by (simp add: dt_by_accuracy_fuzzy fuzzy_accuracy resolved_cast_def io_defs datetime_now_def)
next
  case (Inr s)
  then have "tzinfo s = None" using datetime_add_tzinfo [OF Inr] by simp
  then have acc: "accuracy \<lparr>dt_value = PDatetime s\<rparr> = datetime" by (simp add: accuracy_def)
  show ?thesis
    using assms Inr acc
    by (simp add: dt_by_accuracy_fuzzy fuzzy_accuracy resolved_cast_def io_defs datetime_now_def
        dt_by_accuracy_same dt_by_accuracy_concrete)
qed

lemma resolved_cast_explicit:
  assumes "datetime_add ((clock E c)\<lparr>tzinfo := None\<rparr>) (timedelta_days k) = Inr s"
  shows "resolved_cast E k date c = (Inr (PDate (date_of s)), Suc c)"
    and "resolved_cast E k datetime c = (Inr (PDatetime s), Suc c)"
    and "resolved_cast E k timezone c
          = (Inr (PDatetime (s\<lparr>tzinfo := Some (LOCAL_TIMEZONE E)\<rparr>)), Suc c)"
proof -
  have "tzinfo s = None" using datetime_add_tzinfo [OF assms] by simp
  then have acc: "accuracy \<lparr>dt_value = PDatetime s\<rparr> = datetime" by (simp add: accuracy_def)
  show "resolved_cast E k date c = (Inr (PDate (date_of s)), Suc c)"
    "resolved_cast E k datetime c = (Inr (PDatetime s), Suc c)"
    "resolved_cast E k timezone c
          = (Inr (PDatetime (s\<lparr>tzinfo := Some (LOCAL_TIMEZONE E)\<rparr>)), Suc c)"
    using assms acc
    by (simp_all add: resolved_cast_def io_defs datetime_now_def dt_by_accuracy_same
        dt_by_accuracy_concrete static_dt_by_accuracy_def)
qed

lemma resolved_cast_overflow:
  assumes "datetime_add ((clock E c)\<lparr>tzinfo := None\<rparr>) (timedelta_days k) = Inl e"
  shows "resolved_cast E k w c = (Inl OverflowError, Suc c)"
  using assms datetime_add_error [OF assms]
  by (simp add: resolved_cast_def io_defs datetime_now_def)

text \<open>
  C5. Casting a fuzzy Date to a concrete accuracy reads the clock once and resolves
  \<open>SOON\<close> as the current instant plus 15 days, \<open>SOMEDAY\<close> plus 365 days and
  \<open>NODATE\<close> plus 9999 days; the sum is then cast to the wanted accuracy: its calendar
  date, itself, or itself with the local offset attached. When the sum leaves the
  range of the library the cast raises \<^verbatim>\<open>OverflowError\<close>.
\<close>

theorem fuzzy_cast_offsets:
  "(w \<noteq> fuzzy \<longrightarrow>
      dt_by_accuracy E \<lparr>dt_value = PInt SOON\<rparr> w c = resolved_cast E 15 w c \<and>
      dt_by_accuracy E \<lparr>dt_value = PInt SOMEDAY\<rparr> w c = resolved_cast E 365 w c \<and>
      dt_by_accuracy E \<lparr>dt_value = PInt NODATE\<rparr> w c = resolved_cast E 9999 w c) \<and>
   (datetime_add ((clock E c)\<lparr>tzinfo := None\<rparr>) (timedelta_days k) = Inr s \<longrightarrow>
      resolved_cast E k date c = (Inr (PDate (date_of s)), Suc c) \<and>
      resolved_cast E k datetime c = (Inr (PDatetime s), Suc c) \<and>
      resolved_cast E k timezone c
        = (Inr (PDatetime (s\<lparr>tzinfo := Some (LOCAL_TIMEZONE E)\<rparr>)), Suc c)) \<and>
   (datetime_add ((clock E c)\<lparr>tzinfo := None\<rparr>) (timedelta_days k) = Inl e \<longrightarrow>
      resolved_cast E k w c = (Inl OverflowError, Suc c))"
  using dt_by_accuracy_resolved [of w _ _ E c] resolved_cast_explicit [of E c k s]
    resolved_cast_overflow [of E c k e w]
  by (simp add: delta_days_def SOON_def SOMEDAY_def NODATE_def)


lemmas calendar_defs = date_add_def datetime_add_def toordinal_def ymd2ord_def
  days_before_year_def days_before_month_def DAYS_BEFORE_MONTH_def DAYS_IN_MONTH_def isleap_def
  td_days_def timedelta_days_def DAY_US_def MAXORDINAL_def fromordinal_def ord2ymd_def Let_def
  time_us_def

text \<open>An instance: the three fuzzy values at noon of 10 April 2023.\<close>

theorem fuzzy_cast_offsets_witness:
  "dt_by_accuracy env0 \<lparr>dt_value = PInt SOON\<rparr> date 0
     = (Inr (PDate \<lparr>year = 2023, month = 4, day = 25\<rparr>), 1) \<and>
   dt_by_accuracy env0 \<lparr>dt_value = PInt SOMEDAY\<rparr> date 0
     = (Inr (PDate \<lparr>year = 2024, month = 4, day = 9\<rparr>), 1) \<and>
   dt_by_accuracy env0 \<lparr>dt_value = PInt NODATE\<rparr> date 0
     = (Inr (PDate \<lparr>year = 2050, month = 8, day = 25\<rparr>), 1)"
proof -
  have w: "date \<noteq> fuzzy" by simp
  have a: "datetime_add ((clock env0 0)\<lparr>tzinfo := None\<rparr>) (timedelta_days 15)
      = Inr \<lparr>date_of = \<lparr>year = 2023, month = 4, day = 25\<rparr>, hour = 12, minute = 0,
             second = 0, microsecond = 0, tzinfo = None\<rparr>"
    by (simp add: env0_def clock0_def calendar_defs)
  have b: "datetime_add ((clock env0 0)\<lparr>tzinfo := None\<rparr>) (timedelta_days 365)
      = Inr \<lparr>date_of = \<lparr>year = 2024, month = 4, day = 9\<rparr>, hour = 12, minute = 0,
             second = 0, microsecond = 0, tzinfo = None\<rparr>"
    by (simp add: env0_def clock0_def calendar_defs)
  have c: "datetime_add ((clock env0 0)\<lparr>tzinfo := None\<rparr>) (timedelta_days 9999)
      = Inr \<lparr>date_of = \<lparr>year = 2050, month = 8, day = 25\<rparr>, hour = 12, minute = 0,
             second = 0, microsecond = 0, tzinfo = None\<rparr>"
    by (simp add: env0_def clock0_def calendar_defs)
  show ?thesis
    using w fuzzy_cast_offsets [of date env0 0 15, where s = "\<lparr>date_of = \<lparr>year = 2023, month = 4, day = 25\<rparr>,
        hour = 12, minute = 0, second = 0, microsecond = 0, tzinfo = None\<rparr>"]
      fuzzy_cast_offsets [of date env0 0 365, where s = "\<lparr>date_of = \<lparr>year = 2024, month = 4, day = 9\<rparr>,
        hour = 12, minute = 0, second = 0, microsecond = 0, tzinfo = None\<rparr>"]
      fuzzy_cast_offsets [of date env0 0 9999, where s = "\<lparr>date_of = \<lparr>year = 2050, month = 8, day = 25\<rparr>,
        hour = 12, minute = 0, second = 0, microsecond = 0, tzinfo = None\<rparr>"]
      a b c
    by simp
qed


subsection \<open>Construction\<close>

lemmas string_defs = lower_def lower_char_def py_int_def is_space_def digit_val_def
lemmas env0_simps = env0_def clock0_def iso_calendar_date_def
lemmas const_defs = NOW_def SOON_def SOMEDAY_def NODATE_def
lemmas valid_defs = valid_date_def MINYEAR_def MAXYEAR_def days_in_month_def DAYS_IN_MONTH_def
  isleap_def

lemma Date_init_env0_reject:
  "s \<noteq> ''None'' \<Longrightarrow> s \<noteq> [] \<Longrightarrow> iso_calendar_date s = None \<Longrightarrow> s \<noteq> ''now'' \<Longrightarrow>
   LOOKUP env0 (KStr (lower s)) = None \<Longrightarrow> Date_init env0 (AStr s) c = (Inl ValueError, c)"
  by (simp add: Date_init_def parse_dt_str_def io_defs env0_def DATE_FORMATS_def string_defs)

lemma py_eq_refl: "py_eq v v = Inr True"
  by (cases v) (auto simp add: py_eq_def cmp3_def split: option.splits)

lemma Date_eq_self: "Date_eq E d (AObj d) c = (Inr True, c)"
  by (simp add: Date_eq_def cast_for_operation_Date io_defs py_eq_refl)

lemma Date_init_now:
  "is_now_input E x \<Longrightarrow>
   Date_init E x c = (Inr \<lparr>dt_value = PDatetime ((clock E c)\<lparr>tzinfo := None\<rparr>)\<rparr>, Suc c)"
  by (auto simp add: is_now_input_def Date_init_def parse_dt_str_def io_defs datetime_now_def
      split: pyarg.splits pyval.splits)

lemma Date_init_pure:
  "\<not> is_now_input E x \<Longrightarrow> Date_init E x c = (fst (Date_init E x 0), c)"
  by (auto simp add: is_now_input_def Date_init_def parse_dt_str_def io_defs datetime_now_def
      split: pyarg.splits pyval.splits option.splits)

lemma Date_init_raises_no_read: "Date_init E x c = (Inl e, c') \<Longrightarrow> c' = c"
  by (auto simp add: Date_init_def io_defs parse_dt_str_def datetime_now_def
      split: pyarg.splits pyval.splits if_splits option.splits prod.splits sum.splits)

text \<open>
  C10 (what the code does at \<^verbatim>\<open>Date('NOW')\<close>). The test for the token \<^verbatim>\<open>now\<close> in
  \<^verbatim>\<open>__parse_dt_str\<close> is made on the string as given, the lookup after it on the
  lowercased string, and \<^verbatim>\<open>LOOKUP\<close> still maps \<^verbatim>\<open>now\<close> to the code \<open>NOW\<close>: the
  string \<^verbatim>\<open>NOW\<close> constructs a fuzzy Date that stores \<open>NOW\<close>, and \<^verbatim>\<open>__str__\<close> of
  it is a \<^verbatim>\<open>KeyError\<close>. The lowercase token stores a clock reading.
\<close>

theorem now_tag_stored:
  "Date_init env0 (AStr ''NOW'') 0 = (Inr \<lparr>dt_value = PInt NOW\<rparr>, 0) \<and>
   accuracy \<lparr>dt_value = PInt NOW\<rparr> = fuzzy \<and>
   Date_str \<lparr>dt_value = PInt NOW\<rparr> = Inl KeyError \<and>
   Date_init env0 (AStr ''now'') 0 = (Inr \<lparr>dt_value = PDatetime (clock0 0)\<rparr>, 1)"
  by (simp add: Date_init_def parse_dt_str_def io_defs env0_simps DATE_FORMATS_def string_defs
      LOOKUP_def const_defs accuracy_def Date_str_def strs_def datetime_now_def)

text \<open>
  C4 as stated fails for the token \<^verbatim>\<open>now\<close>: the two constructions read the clock
  one after the other, and the readings differ.
\<close>

theorem construct_twice_now_counterexample:
  "construct_twice_eq env0 (AStr ''now'') 0 = (Inr False, 2)"
  by (simp add: construct_twice_eq_def Date_init_def parse_dt_str_def io_defs env0_simps
      DATE_FORMATS_def string_defs datetime_now_def Date_eq_def cast_for_operation_def
      accuracy_def py_eq_def datetime_tuple_def cmp3_def)

text \<open>
  C4, amended. For an input that is not a "now" input and that the constructor accepts,
  \<^verbatim>\<open>Date(x) == Date(x)\<close> is true and reads no clock. For a "now" input each
  construction stores its own clock reading, and the comparison is true exactly when
  the two readings are equal.
\<close>

theorem construct_twice_eq_amended:
  "(\<not> is_now_input E x \<and> fst (Date_init E x c) = Inr d \<longrightarrow>
      construct_twice_eq E x c = (Inr True, c)) \<and>
   (is_now_input E x \<longrightarrow>
      construct_twice_eq E x c =
        (Inr (datetime_tuple (clock E c) = datetime_tuple (clock E (Suc c))), Suc (Suc c)))"
proof (intro conjI impI)
  assume a: "\<not> is_now_input E x \<and> fst (Date_init E x c) = Inr d"
  then have "Date_init E x k = (Inr d, k)" for k
    using Date_init_pure [of E x k] Date_init_pure [of E x c] by simp
  then show "construct_twice_eq E x c = (Inr True, c)"
    by (simp add: construct_twice_eq_def io_bind_def Date_eq_self)
next
  assume "is_now_input E x"
  then show "construct_twice_eq E x c =
        (Inr (datetime_tuple (clock E c) = datetime_tuple (clock E (Suc c))), Suc (Suc c))"
    by (simp add: construct_twice_eq_def io_bind_def Date_init_now Date_eq_def
        cast_for_operation_Date accuracy_def io_return_def io_lift_def py_eq_def
        datetime_tuple_def cmp3_def)
qed

text \<open>An instance: a fuzzy token, an ISO date, and the code 0.\<close>

theorem construct_twice_eq_amended_witness:
  "fst (Date_init env0 (AStr ''soon'') 0) = Inr \<lparr>dt_value = PInt SOON\<rparr> \<and>
   construct_twice_eq env0 (AStr ''soon'') 0 = (Inr True, 0) \<and>
   fst (Date_init env0 (AStr ''2024-02-29'') 0)
     = Inr \<lparr>dt_value = PDate \<lparr>year = 2024, month = 2, day = 29\<rparr>\<rparr> \<and>
   construct_twice_eq env0 (AStr ''2024-02-29'') 0 = (Inr True, 0) \<and>
   construct_twice_eq env0 (AVal (PInt 0)) 0 = (Inr False, 2)"
proof -
  have a: "\<not> is_now_input env0 (AStr ''soon'')"
    by (simp add: is_now_input_def env0_def string_defs)
  have b: "fst (Date_init env0 (AStr ''soon'') 0) = Inr \<lparr>dt_value = PInt SOON\<rparr>"
    by (simp add: Date_init_def parse_dt_str_def io_defs env0_simps DATE_FORMATS_def
        string_defs LOOKUP_def const_defs)
  have c: "\<not> is_now_input env0 (AStr ''2024-02-29'')"
    by (simp add: is_now_input_def env0_def string_defs)
  have d: "fst (Date_init env0 (AStr ''2024-02-29'') 0)
     = Inr \<lparr>dt_value = PDate \<lparr>year = 2024, month = 2, day = 29\<rparr>\<rparr>"
    by (simp add: Date_init_def parse_dt_str_def io_defs env0_simps digit_val_def date_new_def
        valid_defs)
  have e: "is_now_input env0 (AVal (PInt 0))"
    by (simp add: is_now_input_def)
  show ?thesis
    using a b c d e
      construct_twice_eq_amended [of env0 "AStr ''soon''" 0 "\<lparr>dt_value = PInt SOON\<rparr>"]
      construct_twice_eq_amended [of env0 "AStr ''2024-02-29''" 0 "\<lparr>dt_value = PDate \<lparr>year = 2024, month = 2, day = 29\<rparr>\<rparr>"]
      construct_twice_eq_amended [of env0 "AVal (PInt 0)" 0]
    by (simp add: env0_simps datetime_tuple_def)
qed

subsection \<open>A bare day of the month\<close>

lemma resolve_month_day_current:
  "valid_date (day_in_month today d) \<Longrightarrow> day today < d \<Longrightarrow>
   resolve_month_day today d = Some (day_in_month today d)"
  by (simp add: resolve_month_day_def date_replace_day_def date_new_def day_in_month_def
      date_le_def date_tuple_def)

lemma resolve_month_day_next:
  "d \<le> day today \<or> \<not> valid_date (day_in_month today d) \<Longrightarrow>
   valid_date (day_in_next_month today d) \<Longrightarrow>
   resolve_month_day today d = Some (day_in_next_month today d)"
  by (auto simp add: resolve_month_day_def date_replace_day_def date_new_def day_in_month_def
      day_in_next_month_def next_month_day_def date_le_def date_tuple_def Let_def)

lemma parse_day_number:
  assumes "fst (Date_init E (AStr (lower s)) c) = Inl ValueError"
    and "py_int (lower s) = Some d" "1 \<le> d" "d \<le> 31" "\<not> startswith (lower s) ''0''"
    and "resolve_month_day (date_of (clock E c)) d = Some r"
  shows "parse E (Some s) c = (Inr \<lparr>dt_value = PDate r\<rparr>, Suc c)"
proof -
  obtain c' where "Date_init E (AStr (lower s)) c = (Inl ValueError, c')"
    using assms(1) by (cases "Date_init E (AStr (lower s)) c") auto
  then have i: "Date_init E (AStr (lower s)) c = (Inl ValueError, c)"
    using Date_init_raises_no_read by blast
  have m: "parse_only_month_day E (lower s) c = (Inr (Some r), Suc c)"
    using assms(2-6) by (simp add: parse_only_month_day_def io_defs date_today_def)
  show ?thesis
    using i m by (simp add: parse_def io_defs Date_init_def)
qed

text \<open>
  C7 as stated fails where day \<open>d\<close> does not exist in the current month: on 10 April
  the string \<^verbatim>\<open>31\<close> gives 31 May, although today's day of the month is less than 31.
\<close>

theorem bare_day_counterexample:
  "day (date_of (clock env0 0)) < 31 \<and> month (date_of (clock env0 0)) = 4 \<and>
   parse env0 (Some ''31'') 0 = (Inr \<lparr>dt_value = PDate \<lparr>year = 2023, month = 5, day = 31\<rparr>\<rparr>, 1)"
proof -
  have r: "Date_init env0 (AStr ''31'') 0 = (Inl ValueError, 0)"
    by (rule Date_init_env0_reject)
       (simp_all add: iso_calendar_date_def LOOKUP_def env0_def string_defs)
  have m: "parse_only_month_day env0 ''31'' 0 = (Inr (Some \<lparr>year = 2023, month = 5, day = 31\<rparr>), 1)"
    by (simp add: parse_only_month_day_def string_defs io_defs date_today_def env0_simps
        resolve_month_day_def next_month_day_def date_replace_day_def date_new_def valid_date_def
        MINYEAR_def MAXYEAR_def days_in_month_def DAYS_IN_MONTH_def isleap_def)
  show ?thesis
    using r m
    by (simp add: parse_def string_defs io_defs Date_init_def env0_simps)
qed

text \<open>
  C7, amended. For a day number \<open>d\<close> from 1 to 31 without a leading zero that the
  direct construction rejects: when today's day of the month is less than \<open>d\<close> and day
  \<open>d\<close> exists in the current month, the result is day \<open>d\<close> of the current month;
  when today's day of the month is at least \<open>d\<close>, or day \<open>d\<close> does not exist in the
  current month, and day \<open>d\<close> exists in the next month (January of the next year after
  December), the result is day \<open>d\<close> of the next month. One clock reading is made.
\<close>

theorem bare_day_amended:
  assumes "fst (Date_init E (AStr (lower s)) c) = Inl ValueError"
    and "py_int (lower s) = Some d" "1 \<le> d" "d \<le> 31" "\<not> startswith (lower s) ''0''"
    and "today = date_of (clock E c)"
  shows "(day today < d \<and> valid_date (day_in_month today d) \<longrightarrow>
            parse E (Some s) c = (Inr \<lparr>dt_value = PDate (day_in_month today d)\<rparr>, Suc c)) \<and>
         ((d \<le> day today \<or> \<not> valid_date (day_in_month today d)) \<and>
            valid_date (day_in_next_month today d) \<longrightarrow>
            parse E (Some s) c = (Inr \<lparr>dt_value = PDate (day_in_next_month today d)\<rparr>, Suc c))"
  using assms parse_day_number [OF assms(1-5)] resolve_month_day_current [of today d]
    resolve_month_day_next [of d today]
  by auto

text \<open>An instance: the strings \<^verbatim>\<open>15\<close> and \<^verbatim>\<open>10\<close> on 10 April 2023.\<close>

theorem bare_day_amended_witness:
  "parse env0 (Some ''15'') 0 = (Inr \<lparr>dt_value = PDate \<lparr>year = 2023, month = 4, day = 15\<rparr>\<rparr>, 1) \<and>
   parse env0 (Some ''10'') 0 = (Inr \<lparr>dt_value = PDate \<lparr>year = 2023, month = 5, day = 10\<rparr>\<rparr>, 1)"
proof -
  have r: "fst (Date_init env0 (AStr (lower s)) 0) = Inl ValueError" if "s = ''15'' \<or> s = ''10''" for s
    using that Date_init_env0_reject [of "lower s" 0]
    by (auto simp add: iso_calendar_date_def LOOKUP_def env0_def string_defs)
  have t: "date_of (clock env0 0) = \<lparr>year = 2023, month = 4, day = 10\<rparr>"
    by (simp add: env0_simps)
  have "parse env0 (Some ''15'') 0
      = (Inr \<lparr>dt_value = PDate (day_in_month \<lparr>year = 2023, month = 4, day = 10\<rparr> 15)\<rparr>, Suc 0)"
    using bare_day_amended [of env0 "''15''" 0 15 "\<lparr>year = 2023, month = 4, day = 10\<rparr>"] r [of "''15''"] t
    by (simp add: string_defs day_in_month_def valid_defs)
  moreover have "parse env0 (Some ''10'') 0
      = (Inr \<lparr>dt_value = PDate (day_in_next_month \<lparr>year = 2023, month = 4, day = 10\<rparr> 10)\<rparr>, Suc 0)"
    using bare_day_amended [of env0 "''10''" 0 10 "\<lparr>year = 2023, month = 4, day = 10\<rparr>"] r [of "''10''"] t
    by (simp add: string_defs day_in_next_month_def valid_defs)
  ultimately show ?thesis
    by (simp add: day_in_month_def day_in_next_month_def)
qed

subsection \<open>Recurrence-relative parsing: the three parsers in turn\<close>

lemma numerical_loop_reject:
  "\<forall>fmt \<in> set fmts. strptime E p fmt = None \<Longrightarrow> numerical_loop E p x r fmts = r"
  by (induction fmts arbitrary: r) auto

lemma dt_by_accuracy_state:
  "snd (dt_by_accuracy E self w k) = (if accuracy self = fuzzy \<and> w \<noteq> fuzzy then Suc k else k)"
proof (cases "accuracy self = w")
  case True
  then show ?thesis by (auto simp add: dt_by_accuracy_same)
next
  case False
  show ?thesis
  proof (cases "accuracy self = fuzzy")
    case True
    with False have "w \<noteq> fuzzy" by auto
    then show ?thesis
      using True by (simp add: dt_by_accuracy_fuzzy split: option.splits sum.splits)
  next
    case f: False
    then show ?thesis by (simp add: dt_by_accuracy_concrete [OF f False])
  qed
qed

lemma dt_by_accuracy_concrete_state:
  "accuracy self \<noteq> fuzzy \<Longrightarrow> fst (dt_by_accuracy E self w k) = fst (dt_by_accuracy E self w c)"
  by (cases "accuracy self = w") (simp_all add: dt_by_accuracy_same dt_by_accuracy_concrete)

lemma self_date_of_state:
  "snd (self_date_of E self k) = (if accuracy self = fuzzy then Suc k else k)"
  using dt_by_accuracy_state [of E self date k]
  by (cases "dt_by_accuracy E self date k")
     (auto simp add: self_date_of_def io_defs split: sum.splits)

lemma self_date_of_concrete:
  "accuracy self \<noteq> fuzzy \<Longrightarrow> fst (self_date_of E self k) = fst (self_date_of E self c)"
  using dt_by_accuracy_concrete_state [of self E date k c]
    dt_by_accuracy_state [of E self date k] dt_by_accuracy_state [of E self date c]
  by (cases "dt_by_accuracy E self date k"; cases "dt_by_accuracy E self date c")
     (auto simp add: self_date_of_def io_defs split: sum.splits)

lemma anchor_date_steps:
  assumes "anchor_date E self c d"
  obtains c1 c2 c3 where "self_date_of E self c = (Inr d, c1)"
    "self_date_of E self c1 = (Inr d, c2)" "self_date_of E self c2 = (Inr d, c3)"
proof (cases "accuracy self = fuzzy")
  case True
  have "snd (self_date_of E self k) = Suc k" for k
    using self_date_of_state [of E self k] True by simp
  then have "self_date_of E self c = (Inr d, Suc c)"
    "self_date_of E self (Suc c) = (Inr d, Suc (Suc c))"
    "self_date_of E self (Suc (Suc c)) = (Inr d, Suc (Suc (Suc c)))"
    using assms by (simp_all add: anchor_date_def prod_eq_iff)
  then show ?thesis using that by blast
next
  case False
  have "snd (self_date_of E self k) = k" "fst (self_date_of E self k) = fst (self_date_of E self c)"
    for k
    using self_date_of_state [of E self k] self_date_of_concrete [OF False, of E k c] False
    by simp_all
  then have "self_date_of E self k = (Inr d, k)" for k
    using assms by (simp add: anchor_date_def prod_eq_iff)
  then show ?thesis using that by blast
qed

lemma anchor_date_concrete:
  "ymd_of (dt_value self) = Some d \<Longrightarrow> anchor_date E self c d"
  by (auto simp add: anchor_date_def self_date_of_def dt_by_accuracy_def accuracy_def io_defs
      ymd_of_def static_dt_by_accuracy_def as_date_def split: pyval.splits)

text \<open>The three parsers on a phrase that is no number and no date literal.\<close>

lemma parse_from_date_phrase:
  assumes a: "anchor_date E self c d"
    and r: "no_date_literal E (lower s) c"
    and n: "py_int (lower s) = None"
    and t: "recurrency_formats E d newtask (lower s) = Some N"
    and o: "newtask \<or> date_add d (timedelta_days 1) \<noteq> Inl OverflowError"
  shows "fst (parse_from_date E self (Some s) newtask c)
           = date_result (date_add d (timedelta_days N))"
proof -
  obtain c1 c2 c3 where s1: "self_date_of E self c = (Inr d, c1)"
    and s2: "self_date_of E self c1 = (Inr d, c2)" and s3: "self_date_of E self c2 = (Inr d, c3)"
    using anchor_date_steps [OF a] by blast
  obtain c' where "Date_init E (AStr (lower s)) c = (Inl ValueError, c')"
    using r by (cases "Date_init E (AStr (lower s)) c") (auto simp add: no_date_literal_def)
  then have i: "Date_init E (AStr (lower s)) c = (Inl ValueError, c)"
    using Date_init_raises_no_read by blast
  have adv: "\<exists>x. (if \<not> newtask then io_lift (date_add d (timedelta_days 1)) else io_return d) k
      = (Inr x, k)" for k
    using o date_add_error [of d "timedelta_days 1"]
    by (cases "date_add d (timedelta_days 1)") (auto simp add: io_defs)
  have p1: "parse_only_month_day_for_recurrency E self (lower s) newtask c = (Inr None, c1)"
    using s1 n adv [of c1] by (auto simp add: parse_only_month_day_for_recurrency_def io_defs)
  have nl: "numerical_loop E (lower s) x None [''%Y/%m/%d'', ''%Y%m%d'', ''%m%d''] = None" for x
    using r by (intro numerical_loop_reject) (simp add: no_date_literal_def)
  have p2: "parse_numerical_format_for_recurrency E self (lower s) newtask c1 = (Inr None, c2)"
    using s2 nl adv [of c2] by (auto simp add: parse_numerical_format_for_recurrency_def io_defs)
  have p3: "parse_text_representation_for_recurrency E self (lower s) newtask c2
      = (case date_add d (timedelta_days N) of Inl e \<Rightarrow> (Inl e, c3) | Inr x \<Rightarrow> (Inr (Some x), c3))"
    using s3 t by (simp add: parse_text_representation_for_recurrency_def io_defs split: sum.splits)
  show ?thesis
    using i p1 p2 p3
    by (simp add: parse_from_date_def io_defs Date_init_def date_result_def split: sum.splits)
qed

lemma parse_from_date_overflow:
  assumes a: "anchor_date E self c d"
    and r: "no_date_literal E (lower s) c"
    and o: "date_add d (timedelta_days 1) = Inl OverflowError"
  shows "fst (parse_from_date E self (Some s) False c) = Inl OverflowError"
proof -
  obtain c1 c2 c3 where s1: "self_date_of E self c = (Inr d, c1)"
    and s2: "self_date_of E self c1 = (Inr d, c2)" and s3: "self_date_of E self c2 = (Inr d, c3)"
    using anchor_date_steps [OF a] by blast
  obtain c' where "Date_init E (AStr (lower s)) c = (Inl ValueError, c')"
    using r by (cases "Date_init E (AStr (lower s)) c") (auto simp add: no_date_literal_def)
  then have i: "Date_init E (AStr (lower s)) c = (Inl ValueError, c)"
    using Date_init_raises_no_read by blast
  have p1: "parse_only_month_day_for_recurrency E self (lower s) False c = (Inl OverflowError, c1)"
    using s1 o by (simp add: parse_only_month_day_for_recurrency_def io_defs)
  show ?thesis
    using i p1 by (simp add: parse_from_date_def io_defs)
qed

end
